theory Spec2Isabelle
  imports Complex_Main
begin

section \<open>Arrays and element-wise arithmetic\<close>

text \<open>
  The notebook \<^verbatim>\<open>03_lm_spdhg.ipynb\<close> works on dense arrays. An image or a measurement
  array is modelled by the list of its entries in storage order, over the real numbers
  (rounding of the 32-bit floats is not modelled). The dual of the gradient has one
  leading axis for the spatial direction; it is a list with one flattened array per
  direction. Element-wise operators of the array library combine entries of equal index.
\<close>

type_synonym vec = "real list"
type_synonym gvec = "real list list"

definition vadd :: "vec \<Rightarrow> vec \<Rightarrow> vec" where
  "vadd a b = map2 (+) a b"

definition vsub :: "vec \<Rightarrow> vec \<Rightarrow> vec" where
  "vsub a b = map2 (-) a b"

definition vmul :: "vec \<Rightarrow> vec \<Rightarrow> vec" where
  "vmul a b = map2 (*) a b"

definition vdiv :: "vec \<Rightarrow> vec \<Rightarrow> vec" where
  "vdiv a b = map2 (/) a b"

definition gadd :: "gvec \<Rightarrow> gvec \<Rightarrow> gvec" where
  "gadd u v = map2 vadd u v"

definition gsub :: "gvec \<Rightarrow> gvec \<Rightarrow> gvec" where
  "gsub u v = map2 vsub u v"

definition gscale :: "real \<Rightarrow> gvec \<Rightarrow> gvec" where
  "gscale c u = map (map (\<lambda>e. c * e)) u"

definition gdiv_scalar :: "gvec \<Rightarrow> real \<Rightarrow> gvec" where
  "gdiv_scalar u c = map (map (\<lambda>e. e / c)) u"

text \<open>\<^verbatim>\<open>slice(i, None, n)\<close> applied to a one-dimensional array: the entries at
  \<open>i, i + n, i + 2 n, \<dots>\<close> below the length.\<close>

definition subset_slice :: "nat \<Rightarrow> nat \<Rightarrow> 'a list \<Rightarrow> 'a list" where
  "subset_slice i n xs = map (\<lambda>q. xs ! (i + q * n)) [0..<(length xs + n - 1 - i) div n]"

section \<open>Linear operators\<close>

text \<open>
  The projectors come from the library \<^verbatim>\<open>parallelproj\<close>; the notebook only calls an
  operator (\<^verbatim>\<open>op(x)\<close>) and its adjoint (\<^verbatim>\<open>op.adjoint(y)\<close>). They are parameters here.
  \<open>out_shape\<close> of the finite-difference operator is (number of directions, number of
  voxels).
\<close>

record linop =
  op_call :: "vec \<Rightarrow> vec"
  op_adjoint :: "vec \<Rightarrow> vec"

record gradop =
  grad_call :: "vec \<Rightarrow> gvec"
  grad_adjoint :: "gvec \<Rightarrow> vec"
  out_shape :: "nat \<times> nat"

section \<open>Proximal operators\<close>

text \<open>
  \<^verbatim>\<open>y_plus = 0.5 * (y_plus + 1 - xp.sqrt((y_plus - 1) ** 2 + 4 * S_A * d))\<close>:
  one entry, and the whole array.
\<close>

definition poisson_prox :: "real \<Rightarrow> real \<Rightarrow> real \<Rightarrow> real" where
  "poisson_prox S d y = 0.5 * (y + 1 - sqrt ((y - 1)\<^sup>2 + 4 * S * d))"

definition prox_dual_data :: "vec \<Rightarrow> vec \<Rightarrow> vec \<Rightarrow> vec" where
  "prox_dual_data S d y_plus =
     map (\<lambda>(yp, s, c). poisson_prox s c yp) (zip y_plus (zip S d))"

text \<open>
  \<^verbatim>\<open>denom = xp.linalg.vector_norm(w_plus, axis=0)\<close>: per voxel, the Euclidean norm of
  the group of its directional components.
\<close>

definition vector_norm_axis0 :: "gvec \<Rightarrow> vec" where
  "vector_norm_axis0 u =
     (case u of [] \<Rightarrow> []
      | c # cs \<Rightarrow> map (\<lambda>j. sqrt (\<Sum>r\<leftarrow>u. (r ! j)\<^sup>2)) [0..<length c])"

text \<open>\<^verbatim>\<open>xp.where(denom < 1, xp.ones_like(denom), denom)\<close>\<close>

definition clamp_denom :: "vec \<Rightarrow> vec" where
  "clamp_denom denom = map (\<lambda>v. if v < 1 then 1 else v) denom"

text \<open>\<^verbatim>\<open>w_plus /= xp.where(...)\<close>: every direction is divided by the same per-voxel
  array.\<close>

definition tv_prox :: "gvec \<Rightarrow> gvec" where
  "tv_prox w_plus =
     (let denom = vector_norm_axis0 w_plus
      in map (\<lambda>c. vdiv c (clamp_denom denom)) w_plus)"

text \<open>
  The dual gradient update of both loops:
  \<^verbatim>\<open>w_plus = (w + S_G * op_G(x)) / beta\<close>, the division by the clamped norm, and
  \<^verbatim>\<open>w_plus *= beta\<close>. The argument \<open>gx\<close> is \<^verbatim>\<open>op_G(x)\<close>.
\<close>

definition w_candidate :: "real \<Rightarrow> gvec \<Rightarrow> gvec \<Rightarrow> gvec" where
  "w_candidate sg w gx = gadd w (gscale sg gx)"

definition w_update :: "real \<Rightarrow> real \<Rightarrow> gvec \<Rightarrow> gvec \<Rightarrow> gvec" where
  "w_update b sg w gx = gscale b (tv_prox (gdiv_scalar (w_candidate sg w gx) b))"

text \<open>\<^verbatim>\<open>x = xp.where(x < 0, xp.zeros_like(x), x)\<close>\<close>

definition proj_nonneg :: "vec \<Rightarrow> vec" where
  "proj_nonneg v = map (\<lambda>e. if e < 0 then 0 else e) v"

section \<open>Step sizes\<close>

text \<open>
  The step-size cells divide by arrays that can hold zeros, and a floating-point division
  does not raise: the entry becomes \<^verbatim>\<open>inf\<close>, \<^verbatim>\<open>-inf\<close> or \<^verbatim>\<open>nan\<close>. The entries
  of the step-size arrays are therefore values of \<open>fval\<close>. A finite entry carries its
  value as a real number (rounding is not modelled). The scalars \<open>gamma\<close>, \<open>rho\<close>,
  \<open>p_a\<close>, \<open>T_G\<close> are Python floats, taken as real numbers; the arrays that are divided
  by hold real numbers, a zero entry standing for \<^verbatim>\<open>+0.0\<close>.
\<close>

datatype fval = Fin real | PInf | NInf | NaN

text \<open>The comparisons \<^verbatim>\<open><\<close> and \<^verbatim>\<open><=\<close> of floats: false whenever a side is
  \<^verbatim>\<open>nan\<close>.\<close>

fun flt :: "fval \<Rightarrow> fval \<Rightarrow> bool" where
  "flt (Fin a) (Fin b) = (a < b)"
| "flt (Fin a) PInf = True"
| "flt NInf (Fin b) = True"
| "flt NInf PInf = True"
| "flt _ _ = False"

fun fle :: "fval \<Rightarrow> fval \<Rightarrow> bool" where
  "fle NaN _ = False"
| "fle _ NaN = False"
| "fle (Fin a) (Fin b) = (a \<le> b)"
| "fle NInf _ = True"
| "fle _ PInf = True"
| "fle _ _ = False"

text \<open>
  The quotient of a scalar \<open>c\<close> by an array entry \<open>b\<close>. \<open>ovf\<close> is the overflow
  threshold of the array's float type: the least magnitude that rounds to infinity. The
  scalar itself is taken to be below that threshold.
\<close>

definition fdiv :: "real \<Rightarrow> real \<Rightarrow> real \<Rightarrow> fval" where
  "fdiv ovf c b =
     (if b = 0 then (if c = 0 then NaN else if 0 < c then PInf else NInf)
      else if ovf \<le> c / b then PInf
      else if c / b \<le> - ovf then NInf
      else Fin (c / b))"

text \<open>The threshold of 32-bit floats: half a unit in the last place above the largest
  finite value.\<close>

definition float32_overflow :: real where
  "float32_overflow = 2 ^ 128 - 2 ^ 103"

datatype error = ValueError | ZeroDivisionError

text \<open>The division of two Python floats raises on a zero divisor.\<close>

definition py_div :: "real \<Rightarrow> real \<Rightarrow> error + real" where
  "py_div a b = (if b = 0 then Inl ZeroDivisionError else Inr (a / b))"

text \<open>
  \<^verbatim>\<open>tmp = xp.where(tmp == 0, xp.min(tmp[tmp > 0]), tmp)\<close>. The minimum is taken
  first, over the positive entries; the array library raises on the minimum of an empty
  array.
\<close>

definition replace_zero_entries :: "vec \<Rightarrow> error + vec" where
  "replace_zero_entries tmp =
     (case filter (\<lambda>v. 0 < v) tmp of
        [] \<Rightarrow> Inl ValueError
      | p # ps \<Rightarrow> Inr (map (\<lambda>v. if v = 0 then min_list (p # ps) else v) tmp))"

text \<open>
  \<^verbatim>\<open>S_A = gamma * rho / tmp\<close> (PDHG) and \<^verbatim>\<open>S_A_lm.append(gamma * rho / tmp)\<close>
  (LM-SPDHG, once per subset operator), with \<open>tmp\<close> the operator applied to an image of
  ones, after the replacement of its zero entries.
\<close>

definition calc_S_A :: "real \<Rightarrow> real \<Rightarrow> real \<Rightarrow> vec \<Rightarrow> error + fval list" where
  "calc_S_A ovf gamma rho tmp =
     (case replace_zero_entries tmp of
        Inl e \<Rightarrow> Inl e
      | Inr t \<Rightarrow> Inr (map (fdiv ovf (gamma * rho)) t))"

text \<open>
  \<^verbatim>\<open>T_A = (1 / gamma) * rho / pet_lin_op.adjoint(xp.ones(pet_lin_op.out_shape))\<close>:
  \<^verbatim>\<open>1 / gamma\<close> is a division of Python floats, and the adjoint applied to ones is the
  divisor as it is.
\<close>

definition calc_T_A :: "real \<Rightarrow> real \<Rightarrow> real \<Rightarrow> vec \<Rightarrow> error + fval list" where
  "calc_T_A ovf gamma rho adj_ones =
     (case py_div 1 gamma of
        Inl e \<Rightarrow> Inl e
      | Inr g \<Rightarrow> Inr (map (fdiv ovf (g * rho)) adj_ones))"

text \<open>
  \<^verbatim>\<open>T_A_lm[k] = (rho * p_a / gamma) / tmp\<close>, with
  \<^verbatim>\<open>tmp = lm_pet_subset_linop_seq[k].adjoint(1 / mu[sl])\<close>.
\<close>

definition calc_T_A_lm :: "real \<Rightarrow> real \<Rightarrow> real \<Rightarrow> real \<Rightarrow> vec \<Rightarrow> error + fval list" where
  "calc_T_A_lm ovf gamma rho pa tmp =
     (case py_div (rho * pa) gamma of
        Inl e \<Rightarrow> Inl e
      | Inr c \<Rightarrow> Inr (map (fdiv ovf c) tmp))"

text \<open>\<^verbatim>\<open>T = xp.where(T_A < T_G, T_A, xp.full(pet_lin_op.in_shape, T_G))\<close>\<close>

definition combine_T :: "fval list \<Rightarrow> fval \<Rightarrow> fval list" where
  "combine_T T_A T_G = map (\<lambda>t. if flt t T_G then t else T_G) T_A"

text \<open>
  \<^verbatim>\<open>T_A_lm = xp.zeros((num_subsets + 1,) + pet_lin_op.in_shape)\<close>, row \<open>k\<close> set to the
  primal step of subset \<open>k\<close> for every \<open>k\<close>, the last row set to \<open>T_G\<close>, and
  \<^verbatim>\<open>T_lm = xp.min(T_A_lm, axis=0)\<close>. \<open>rows\<close> are the per-subset steps, \<open>n_img\<close> the
  number of voxels. The minimum of the array library returns \<^verbatim>\<open>nan\<close> when an entry
  is \<^verbatim>\<open>nan\<close>; the array always holds the row of \<open>T_G\<close>, so no column is empty.
\<close>

definition fmin2 :: "fval \<Rightarrow> fval \<Rightarrow> fval" where
  "fmin2 a b = (if a = NaN \<or> b = NaN then NaN else if flt b a then b else a)"

fun fmin_list :: "fval list \<Rightarrow> fval" where
  "fmin_list [] = PInf"
| "fmin_list (a # as) = fmin2 a (fmin_list as)"

definition fill_T_A_lm :: "fval list list \<Rightarrow> fval \<Rightarrow> nat \<Rightarrow> fval list list" where
  "fill_T_A_lm rows T_G n_img = rows @ [replicate n_img T_G]"

definition min_axis0 :: "fval list list \<Rightarrow> nat \<Rightarrow> fval list" where
  "min_axis0 arr n_img = map (\<lambda>j. fmin_list (map (\<lambda>r. r ! j) arr)) [0..<n_img]"

definition combine_T_lm :: "fval list list \<Rightarrow> fval \<Rightarrow> nat \<Rightarrow> fval list" where
  "combine_T_lm rows T_G n_img = min_axis0 (fill_T_A_lm rows T_G n_img) n_img"

section \<open>The PDHG loop\<close>

record common_env =
  op_G :: gradop
  beta :: real
  S_G :: real

record pdhg_env = common_env +
  pet_lin_op :: linop
  contamination :: vec
  d_sino :: vec
  S_A :: vec
  T_pdhg :: vec

record pdhg_state =
  x_pdhg :: vec
  y_pdhg :: vec
  w_pdhg :: gvec
  z_pdhg :: vec
  zbar_pdhg :: vec

text \<open>
  The initialisation: \<^verbatim>\<open>x_pdhg = 1.0 * x_mlem\<close>,
  \<^verbatim>\<open>y = 1 - d / (pet_lin_op(x_pdhg) + contamination)\<close>, \<open>w\<close> zero of the gradient's
  output shape, \<^verbatim>\<open>z = pet_lin_op.adjoint(y) + op_G.adjoint(w)\<close>, \<^verbatim>\<open>zbar = 1.0 * z\<close>.
\<close>

definition pdhg_init :: "'a pdhg_env_scheme \<Rightarrow> vec \<Rightarrow> pdhg_state" where
  "pdhg_init E x_mlem =
     (let y = map (\<lambda>q. 1 - q)
                (vdiv (d_sino E) (vadd (op_call (pet_lin_op E) x_mlem) (contamination E)));
          w = replicate (fst (out_shape (op_G E))) (replicate (snd (out_shape (op_G E))) 0);
          z = vadd (op_adjoint (pet_lin_op E) y) (grad_adjoint (op_G E) w)
      in \<lparr>x_pdhg = x_mlem, y_pdhg = y, w_pdhg = w, z_pdhg = z, zbar_pdhg = z\<rparr>)"

text \<open>
  One pass of the loop body. The cost tracking and the copy \<^verbatim>\<open>x_pdhg_early\<close> only
  read the image and are left out.
\<close>

definition pdhg_step :: "'a pdhg_env_scheme \<Rightarrow> pdhg_state \<Rightarrow> pdhg_state" where
  "pdhg_step E s =
     (let x' = proj_nonneg (vsub (x_pdhg s) (vmul (T_pdhg E) (zbar_pdhg s)));
          y_plus = prox_dual_data (S_A E) (d_sino E)
                     (vadd (y_pdhg s)
                        (vmul (S_A E) (vadd (op_call (pet_lin_op E) x') (contamination E))));
          w_plus = w_update (beta E) (S_G E) (w_pdhg s) (grad_call (op_G E) x');
          delta_z = vadd (op_adjoint (pet_lin_op E) (vsub y_plus (y_pdhg s)))
                         (grad_adjoint (op_G E) (gsub w_plus (w_pdhg s)));
          z' = vadd (z_pdhg s) delta_z
      in \<lparr>x_pdhg = x', y_pdhg = y_plus, w_pdhg = w_plus, z_pdhg = z',
          zbar_pdhg = vadd z' delta_z\<rparr>)"

text \<open>\<^verbatim>\<open>for i in range(num_iter_pdhg)\<close>\<close>

primrec pdhg_loop :: "'a pdhg_env_scheme \<Rightarrow> nat \<Rightarrow> pdhg_state \<Rightarrow> pdhg_state" where
  "pdhg_loop E 0 s = s"
| "pdhg_loop E (Suc n) s = pdhg_loop E n (pdhg_step E s)"

section \<open>The LM-SPDHG loop\<close>

record lm_env = common_env +
  lm_pet_subset_linop_seq :: "linop list"
  contamination_list :: vec
  mu :: vec
  num_subsets :: nat
  S_A_lm :: "vec list"
  T_lm :: vec
  p_a :: real
  p_g :: real

record lm_state =
  x_lmspdhg :: vec
  ys :: "vec list"
  w_lm :: gvec
  z_lm :: vec
  zbar_lm :: vec

text \<open>
  One inner step for the drawn index \<open>k\<close>: the primal update, then the update of data
  subset \<open>k\<close> when \<^verbatim>\<open>k < num_subsets\<close> and of the gradient block otherwise, then
  \<^verbatim>\<open>z = z + dz\<close> and \<^verbatim>\<open>zbar = z + (dz / p)\<close>, which reads the \<open>z\<close> just assigned.
\<close>

definition lm_step :: "'a lm_env_scheme \<Rightarrow> nat \<Rightarrow> lm_state \<Rightarrow> lm_state" where
  "lm_step E k s =
     (let x' = proj_nonneg (vsub (x_lmspdhg s) (vmul (T_lm E) (zbar_lm s)))
      in if k < num_subsets E then
           (let mu_sl = subset_slice k (num_subsets E) (mu E);
                lm_op = lm_pet_subset_linop_seq E ! k;
                y_plus = prox_dual_data (S_A_lm E ! k) mu_sl
                           (vadd (ys s ! k)
                              (vmul (S_A_lm E ! k)
                                 (vadd (op_call lm_op x')
                                    (subset_slice k (num_subsets E) (contamination_list E)))));
                dz = op_adjoint lm_op (vdiv (vsub y_plus (ys s ! k)) mu_sl);
                z' = vadd (z_lm s) dz
            in \<lparr>x_lmspdhg = x', ys = (ys s)[k := y_plus], w_lm = w_lm s, z_lm = z',
                zbar_lm = vadd z' (map (\<lambda>e. e / p_a E) dz)\<rparr>)
         else
           (let w_plus = w_update (beta E) (S_G E) (w_lm s) (grad_call (op_G E) x');
                dz = grad_adjoint (op_G E) (gsub w_plus (w_lm s));
                z' = vadd (z_lm s) dz
            in \<lparr>x_lmspdhg = x', ys = ys s, w_lm = w_plus, z_lm = z',
                zbar_lm = vadd z' (map (\<lambda>e. e / p_g E) dz)\<rparr>))"

text \<open>
  \<^verbatim>\<open>for k in subset_sequence\<close>, and the outer \<^verbatim>\<open>for i in range(num_iter_spdhg)\<close>.
  Each epoch draws \<^verbatim>\<open>np.random.permutation(2 * num_subsets)\<close>; the drawn sequences
  are an argument of the model, one per epoch.
\<close>

primrec lm_epoch :: "'a lm_env_scheme \<Rightarrow> nat list \<Rightarrow> lm_state \<Rightarrow> lm_state" where
  "lm_epoch E [] s = s"
| "lm_epoch E (k # subset_sequence) s = lm_epoch E subset_sequence (lm_step E k s)"

primrec lm_loop :: "'a lm_env_scheme \<Rightarrow> nat list list \<Rightarrow> lm_state \<Rightarrow> lm_state" where
  "lm_loop E [] s = s"
| "lm_loop E (subset_sequence # rest) s = lm_loop E rest (lm_epoch E subset_sequence s)"

section \<open>Setting up the loops\<close>

text \<open>
  The loops are modelled over real numbers, so their environments hold the step-size
  arrays only when every entry is finite: \<open>finite_vec\<close> gives the values of such an array.
\<close>

fun finite_vec :: "fval list \<Rightarrow> vec option" where
  "finite_vec [] = Some []"
| "finite_vec (Fin r # fs) = (case finite_vec fs of None \<Rightarrow> None | Some v \<Rightarrow> Some (r # v))"
| "finite_vec (_ # fs) = None"

fun finite_vecs :: "fval list list \<Rightarrow> vec list option" where
  "finite_vecs [] = Some []"
| "finite_vecs (f # fs) =
     (case finite_vec f of None \<Rightarrow> None
      | Some v \<Rightarrow> (case finite_vecs fs of None \<Rightarrow> None | Some vs \<Rightarrow> Some (v # vs)))"

text \<open>A loop that stops at the first error.\<close>

fun map_err :: "('a \<Rightarrow> error + 'b) \<Rightarrow> 'a list \<Rightarrow> error + 'b list" where
  "map_err f [] = Inr []"
| "map_err f (a # as) =
     (case f a of Inl e \<Rightarrow> Inl e
      | Inr b \<Rightarrow> (case map_err f as of Inl e \<Rightarrow> Inl e | Inr bs \<Rightarrow> Inr (b # bs)))"

text \<open>
  The step-size cell of PDHG: \<open>S_A\<close>, then \<open>T_A\<close>, then \<open>T\<close>. The scalars \<open>S_G\<close> and
  \<open>T_G\<close> come from the operator norm estimated by the library and are arguments. The
  result is the pair of \<open>S_A\<close> and \<open>T\<close>.
\<close>

definition pdhg_step_sizes ::
  "real \<Rightarrow> real \<Rightarrow> real \<Rightarrow> real \<Rightarrow> linop \<Rightarrow> nat \<Rightarrow> nat \<Rightarrow> error + fval list \<times> fval list" where
  "pdhg_step_sizes ovf gamma rho T_G lin n_img n_meas =
     (case calc_S_A ovf gamma rho (op_call lin (replicate n_img 1)) of
        Inl e \<Rightarrow> Inl e
      | Inr S \<Rightarrow>
          (case calc_T_A ovf gamma rho (op_adjoint lin (replicate n_meas 1)) of
             Inl e \<Rightarrow> Inl e
           | Inr TA \<Rightarrow> Inr (S, combine_T TA (Fin T_G))))"

definition pdhg_env_of ::
  "gradop \<Rightarrow> real \<Rightarrow> real \<Rightarrow> linop \<Rightarrow> vec \<Rightarrow> vec \<Rightarrow> fval list \<times> fval list \<Rightarrow> pdhg_env option" where
  "pdhg_env_of G b sg lin contam d st =
     (case finite_vec (fst st) of
        None \<Rightarrow> None
      | Some s \<Rightarrow>
          (case finite_vec (snd st) of
             None \<Rightarrow> None
           | Some t \<Rightarrow>
               Some \<lparr>op_G = G, beta = b, S_G = sg, pet_lin_op = lin, contamination = contam,
                     d_sino = d, S_A = s, T_pdhg = t\<rparr>))"

text \<open>
  The step-size cell of LM-SPDHG: \<open>S_A_lm\<close> in a first loop over the subset operators,
  the rows of \<open>T_A_lm\<close> in a second loop over the subsets, then \<open>T_lm\<close>. The
  sequence holds one operator per subset, each returning arrays of its declared shapes;
  the multiplicities are at least one, so \<^verbatim>\<open>1 / mu[sl]\<close> is a division of real
  numbers.
\<close>

definition lm_step_sizes ::
  "real \<Rightarrow> real \<Rightarrow> real \<Rightarrow> real \<Rightarrow> real \<Rightarrow> linop list \<Rightarrow> vec \<Rightarrow> nat \<Rightarrow> nat
     \<Rightarrow> error + fval list list \<times> fval list" where
  "lm_step_sizes ovf gamma rho pa T_G seq mu_list n_sub n_img =
     (case map_err (\<lambda>lm_op. calc_S_A ovf gamma rho (op_call lm_op (replicate n_img 1))) seq of
        Inl e \<Rightarrow> Inl e
      | Inr SA \<Rightarrow>
          (case map_err
                  (\<lambda>k. calc_T_A_lm ovf gamma rho pa
                         (op_adjoint (seq ! k) (map (\<lambda>m. 1 / m) (subset_slice k n_sub mu_list))))
                  [0..<n_sub] of
             Inl e \<Rightarrow> Inl e
           | Inr rows \<Rightarrow> Inr (SA, combine_T_lm rows (Fin T_G) n_img)))"

definition lm_env_of ::
  "gradop \<Rightarrow> real \<Rightarrow> real \<Rightarrow> linop list \<Rightarrow> vec \<Rightarrow> vec \<Rightarrow> nat \<Rightarrow> real \<Rightarrow> real
     \<Rightarrow> fval list list \<times> fval list \<Rightarrow> lm_env option" where
  "lm_env_of G b sg seq contam mu_list n_sub pa pg st =
     (case finite_vecs (fst st) of
        None \<Rightarrow> None
      | Some s \<Rightarrow>
          (case finite_vec (snd st) of
             None \<Rightarrow> None
           | Some t \<Rightarrow>
               Some \<lparr>op_G = G, beta = b, S_G = sg, lm_pet_subset_linop_seq = seq,
                     contamination_list = contam, mu = mu_list, num_subsets = n_sub,
                     S_A_lm = s, T_lm = t, p_a = pa, p_g = pg\<rparr>))"

section \<open>A small instance\<close>

text \<open>
  Two voxels and two measurements: the operator with matrix rows \<open>(1, 1)\<close> and
  \<open>(0, 1)\<close>, and the forward difference along the single axis. The LM instance has four
  events in two subsets.
\<close>

definition toy_lin_op :: linop where
  "toy_lin_op = \<lparr>op_call = (\<lambda>v. [v ! 0 + v ! 1, v ! 1]),
                  op_adjoint = (\<lambda>u. [u ! 0, u ! 0 + u ! 1])\<rparr>"

definition toy_op_G :: gradop where
  "toy_op_G = \<lparr>grad_call = (\<lambda>v. [[v ! 1 - v ! 0, 0]]),
                grad_adjoint = (\<lambda>u. [- (u ! 0 ! 0), u ! 0 ! 0]),
                out_shape = (1, 2)\<rparr>"

definition toy_pdhg_env :: pdhg_env where
  "toy_pdhg_env = \<lparr>op_G = toy_op_G, beta = 10, S_G = 1, pet_lin_op = toy_lin_op,
     contamination = [1, 1], d_sino = [2, 0], S_A = [1 / 2, 1], T_pdhg = [1 / 10, 1 / 10]\<rparr>"

definition toy_pdhg_state :: pdhg_state where
  "toy_pdhg_state = \<lparr>x_pdhg = [1, 1], y_pdhg = [1 / 3, 1], w_pdhg = [[0, 0]],
     z_pdhg = [1 / 3, 4 / 3], zbar_pdhg = [1 / 3, 4 / 3]\<rparr>"

definition toy_lm_env :: lm_env where
  "toy_lm_env = \<lparr>op_G = toy_op_G, beta = 10, S_G = 1,
     lm_pet_subset_linop_seq = [toy_lin_op, toy_lin_op],
     contamination_list = [1, 1, 1, 1], mu = [1, 2, 1, 2], num_subsets = 2,
     S_A_lm = [[1 / 2, 1], [1 / 2, 1]], T_lm = [1 / 10, 1 / 10],
     p_a = 1 / 4, p_g = 1 / 2\<rparr>"

definition toy_lm_state :: lm_state where
  "toy_lm_state = \<lparr>x_lmspdhg = [1, 1], ys = [[0, 0], [0, 0]], w_lm = [[0, 0]],
     z_lm = [1, 1], zbar_lm = [1, 1]\<rparr>"

text \<open>An operator in which the second voxel is seen by no measurement.\<close>

definition toy_blind_op :: linop where
  "toy_blind_op = \<lparr>op_call = (\<lambda>v. [v ! 0, v ! 0]), op_adjoint = (\<lambda>u. [u ! 0 + u ! 1, 0])\<rparr>"

text \<open>
  The step sizes of that operator (PDHG) and of a sequence of two subset operators
  (LM-SPDHG), for \<open>gamma = 10\<close>, \<open>rho = 0.9999\<close> and \<open>T_G = 0.1\<close>, and the
  environments built from them.
\<close>

definition toy_blind_steps :: "fval list \<times> fval list" where
  "toy_blind_steps =
     ([Fin (9999 / 1000), Fin (9999 / 1000)], [Fin (9999 / 200000), Fin (1 / 10)])"

definition toy_blind_env :: pdhg_env where
  "toy_blind_env = \<lparr>op_G = toy_op_G, beta = 10, S_G = 1, pet_lin_op = toy_blind_op,
     contamination = [1, 1], d_sino = [2, 0], S_A = [9999 / 1000, 9999 / 1000],
     T_pdhg = [9999 / 200000, 1 / 10]\<rparr>"

definition toy_lm_steps :: "fval list list \<times> fval list" where
  "toy_lm_steps =
     ([[Fin (9999 / 1000), Fin (9999 / 1000)], [Fin (9999 / 2000), Fin (9999 / 1000)]],
      [Fin (9999 / 800000), Fin (9999 / 400000)])"

definition toy_blind_lm_env :: lm_env where
  "toy_blind_lm_env = \<lparr>op_G = toy_op_G, beta = 10, S_G = 1,
     lm_pet_subset_linop_seq = [toy_blind_op, toy_lin_op],
     contamination_list = [1, 1, 1, 1], mu = [1, 2, 1, 2], num_subsets = 2,
     S_A_lm = [[9999 / 1000, 9999 / 1000], [9999 / 2000, 9999 / 1000]],
     T_lm = [9999 / 800000, 9999 / 400000], p_a = 1 / 4, p_g = 1 / 2\<rparr>"

section \<open>Shapes and additivity of the adjoints\<close>

text \<open>
  The arrays of a run have the shapes fixed by the operators: \<open>m\<close> measurements, \<open>n\<close>
  voxels, and \<open>out_shape\<close> for the gradient dual. The adjoints are linear; the part used
  below is that the adjoint of a difference of two arrays of the right shape is the
  difference of the adjoints. \<open>z_relation\<close> is the relation between the running \<open>z\<close>
  and the current dual variables.
\<close>

definition gshape :: "nat \<times> nat \<Rightarrow> gvec \<Rightarrow> bool" where
  "gshape sh u \<longleftrightarrow> length u = fst sh \<and> list_all (\<lambda>r. length r = snd sh) u"

definition pdhg_shapes :: "'a pdhg_env_scheme \<Rightarrow> nat \<Rightarrow> nat \<Rightarrow> bool" where
  "pdhg_shapes E m n \<longleftrightarrow>
     length (S_A E) = m \<and> length (d_sino E) = m \<and> length (contamination E) = m \<and>
     length (T_pdhg E) = n \<and> snd (out_shape (op_G E)) = n \<and>
     (\<forall>v. length v = n \<longrightarrow> length (op_call (pet_lin_op E) v) = m) \<and>
     (\<forall>u. length u = m \<longrightarrow> length (op_adjoint (pet_lin_op E) u) = n) \<and>
     (\<forall>v. length v = n \<longrightarrow> gshape (out_shape (op_G E)) (grad_call (op_G E) v)) \<and>
     (\<forall>u. gshape (out_shape (op_G E)) u \<longrightarrow> length (grad_adjoint (op_G E) u) = n)"

definition adjoints_additive :: "'a pdhg_env_scheme \<Rightarrow> nat \<Rightarrow> bool" where
  "adjoints_additive E m \<longleftrightarrow>
     (\<forall>a b. length a = m \<and> length b = m \<longrightarrow>
        op_adjoint (pet_lin_op E) (vsub a b)
          = vsub (op_adjoint (pet_lin_op E) a) (op_adjoint (pet_lin_op E) b)) \<and>
     (\<forall>u v. gshape (out_shape (op_G E)) u \<and> gshape (out_shape (op_G E)) v \<longrightarrow>
        grad_adjoint (op_G E) (gsub u v)
          = vsub (grad_adjoint (op_G E) u) (grad_adjoint (op_G E) v))"

definition pdhg_state_shapes :: "'a pdhg_env_scheme \<Rightarrow> nat \<Rightarrow> nat \<Rightarrow> pdhg_state \<Rightarrow> bool" where
  "pdhg_state_shapes E m n s \<longleftrightarrow>
     length (x_pdhg s) = n \<and> length (y_pdhg s) = m \<and> gshape (out_shape (op_G E)) (w_pdhg s) \<and>
     length (z_pdhg s) = n \<and> length (zbar_pdhg s) = n"

definition z_relation :: "'a pdhg_env_scheme \<Rightarrow> pdhg_state \<Rightarrow> bool" where
  "z_relation E s \<longleftrightarrow>
     z_pdhg s = vadd (op_adjoint (pet_lin_op E) (y_pdhg s)) (grad_adjoint (op_G E) (w_pdhg s))"

section \<open>Auxiliary facts\<close>

lemma poisson_prox_le_one:
  assumes "0 \<le> S" "0 \<le> d"
  shows "poisson_prox S d y \<le> 1"
proof -
  have "0 \<le> 4 * S * d" using assms by simp
  then have "(y - 1)\<^sup>2 \<le> (y - 1)\<^sup>2 + 4 * S * d" by simp
  then have "sqrt ((y - 1)\<^sup>2) \<le> sqrt ((y - 1)\<^sup>2 + 4 * S * d)"
    by (rule real_sqrt_le_mono)
  then have "\<bar>y - 1\<bar> \<le> sqrt ((y - 1)\<^sup>2 + 4 * S * d)" by simp
  then have "y + 1 - sqrt ((y - 1)\<^sup>2 + 4 * S * d) \<le> 2" by linarith
  then show ?thesis by (simp add: poisson_prox_def)
qed

lemma length_prox_dual_data [simp]:
  "length (prox_dual_data S d yp) = min (length yp) (min (length S) (length d))"
  by (simp add: prox_dual_data_def)

lemma nth_prox_dual_data:
  "i < length yp \<Longrightarrow> i < length S \<Longrightarrow> i < length d \<Longrightarrow>
   prox_dual_data S d yp ! i = poisson_prox (S ! i) (d ! i) (yp ! i)"
  by (simp add: prox_dual_data_def)

lemma length_vadd [simp]: "length (vadd a b) = min (length a) (length b)"
  by (simp add: vadd_def)
lemma length_vsub [simp]: "length (vsub a b) = min (length a) (length b)"
  by (simp add: vsub_def)
lemma length_vmul [simp]: "length (vmul a b) = min (length a) (length b)"
  by (simp add: vmul_def)
lemma length_vdiv [simp]: "length (vdiv a b) = min (length a) (length b)"
  by (simp add: vdiv_def)
lemma nth_vadd: "i < length a \<Longrightarrow> i < length b \<Longrightarrow> vadd a b ! i = a ! i + b ! i"
  by (simp add: vadd_def)
lemma nth_vsub: "i < length a \<Longrightarrow> i < length b \<Longrightarrow> vsub a b ! i = a ! i - b ! i"
  by (simp add: vsub_def)
lemma nth_vmul: "i < length a \<Longrightarrow> i < length b \<Longrightarrow> vmul a b ! i = a ! i * b ! i"
  by (simp add: vmul_def)
lemma nth_vdiv: "i < length a \<Longrightarrow> i < length b \<Longrightarrow> vdiv a b ! i = a ! i / b ! i"
  by (simp add: vdiv_def)

lemma prox_dual_data_le_one:
  assumes "\<forall>v\<in>set S. 0 \<le> v" "\<forall>v\<in>set d. 0 \<le> v"
  shows "\<forall>v\<in>set (prox_dual_data S d yp). v \<le> 1"
proof
  fix v assume "v \<in> set (prox_dual_data S d yp)"
  then obtain a b c where "(a, b, c) \<in> set (zip yp (zip S d))" and v: "v = poisson_prox b c a"
    unfolding prox_dual_data_def by auto
  then have "(b, c) \<in> set (zip S d)" by (meson set_zip_rightD)
  then have "b \<in> set S" "c \<in> set d" by (meson set_zip_leftD set_zip_rightD)+
  then show "v \<le> 1" using assms v poisson_prox_le_one by simp
qed

lemma subset_slice_index:
  assumes "q < (length xs + n - 1 - i) div n"
  shows "i + q * n < length xs"
proof -
  have n: "0 < n" using assms by (cases n) auto
  have "Suc q \<le> (length xs + n - 1 - i) div n" using assms by simp
  then have "Suc q * n \<le> length xs + n - 1 - i"
    using n by (simp add: less_eq_div_iff_mult_less_eq)
  then show ?thesis using n by simp
qed

lemma set_subset_slice: "set (subset_slice i n xs) \<subseteq> set xs"
  unfolding subset_slice_def using subset_slice_index by fastforce

lemma proj_nonneg_nonneg: "\<forall>v\<in>set (proj_nonneg a). 0 \<le> v"
  by (auto simp: proj_nonneg_def)

lemma x_pdhg_step:
  "x_pdhg (pdhg_step E s) = proj_nonneg (vsub (x_pdhg s) (vmul (T_pdhg E) (zbar_pdhg s)))"
  by (simp add: pdhg_step_def Let_def)

lemma x_lm_step:
  "x_lmspdhg (lm_step E k s) = proj_nonneg (vsub (x_lmspdhg s) (vmul (T_lm E) (zbar_lm s)))"
  by (simp add: lm_step_def Let_def)

lemma y_pdhg_step:
  "y_pdhg (pdhg_step E s) =
     prox_dual_data (S_A E) (d_sino E)
       (vadd (y_pdhg s)
          (vmul (S_A E)
             (vadd (op_call (pet_lin_op E) (x_pdhg (pdhg_step E s))) (contamination E))))"
  by (simp add: pdhg_step_def Let_def)

lemma ys_lm_step_data:
  "k < num_subsets E \<Longrightarrow>
   ys (lm_step E k s) =
     (ys s)[k := prox_dual_data (S_A_lm E ! k) (subset_slice k (num_subsets E) (mu E))
        (vadd (ys s ! k)
           (vmul (S_A_lm E ! k)
              (vadd (op_call (lm_pet_subset_linop_seq E ! k) (x_lmspdhg (lm_step E k s)))
                    (subset_slice k (num_subsets E) (contamination_list E)))))]"
  by (simp add: lm_step_def Let_def)

lemma pdhg_loop_nonneg:
  "\<forall>v\<in>set (x_pdhg s). 0 \<le> v \<Longrightarrow> \<forall>v\<in>set (x_pdhg (pdhg_loop E n s)). 0 \<le> v"
proof (induction n arbitrary: s)
  case 0
  then show ?case by simp
next
  case (Suc n)
  have "\<forall>v\<in>set (x_pdhg (pdhg_step E s)). 0 \<le> v"
    unfolding x_pdhg_step by (rule proj_nonneg_nonneg)
  then show ?case using Suc.IH by simp
qed

lemma lm_epoch_nonneg:
  "\<forall>v\<in>set (x_lmspdhg s). 0 \<le> v \<Longrightarrow> \<forall>v\<in>set (x_lmspdhg (lm_epoch E ks s)). 0 \<le> v"
proof (induction ks arbitrary: s)
  case Nil
  then show ?case by simp
next
  case (Cons k ks)
  have "\<forall>v\<in>set (x_lmspdhg (lm_step E k s)). 0 \<le> v"
    unfolding x_lm_step by (rule proj_nonneg_nonneg)
  then show ?case using Cons.IH by simp
qed

lemma lm_loop_nonneg:
  "\<forall>v\<in>set (x_lmspdhg s). 0 \<le> v \<Longrightarrow> \<forall>v\<in>set (x_lmspdhg (lm_loop E kss s)). 0 \<le> v"
proof (induction kss arbitrary: s)
  case Nil
  then show ?case by simp
next
  case (Cons ks kss)
  have "\<forall>v\<in>set (x_lmspdhg (lm_epoch E ks s)). 0 \<le> v"
    using Cons.prems by (rule lm_epoch_nonneg)
  then show ?case using Cons.IH by simp
qed


lemma nth_y_pdhg_step:
  assumes "i < length (y_pdhg s)" "i < length (S_A E)" "i < length (d_sino E)"
    "i < length (contamination E)"
    "i < length (op_call (pet_lin_op E) (x_pdhg (pdhg_step E s)))"
  shows "y_pdhg (pdhg_step E s) ! i =
     poisson_prox (S_A E ! i) (d_sino E ! i)
       (y_pdhg s ! i + S_A E ! i *
          (op_call (pet_lin_op E) (x_pdhg (pdhg_step E s)) ! i + contamination E ! i))"
proof -
  let ?ax = "vadd (op_call (pet_lin_op E) (x_pdhg (pdhg_step E s))) (contamination E)"
  let ?c = "vadd (y_pdhg s) (vmul (S_A E) ?ax)"
  have 1: "?ax ! i = op_call (pet_lin_op E) (x_pdhg (pdhg_step E s)) ! i + contamination E ! i"
    using assms by (simp add: nth_vadd)
  have 2: "i < length ?ax" using assms by simp
  have 3: "vmul (S_A E) ?ax ! i = S_A E ! i * ?ax ! i"
    using assms 2 by (simp only: nth_vmul)
  have 4: "i < length (vmul (S_A E) ?ax)" using assms 2 by simp
  have 5: "?c ! i = y_pdhg s ! i + vmul (S_A E) ?ax ! i"
    using assms 4 by (simp only: nth_vadd)
  have 6: "i < length ?c" using assms 4 by simp
  have "y_pdhg (pdhg_step E s) ! i = prox_dual_data (S_A E) (d_sino E) ?c ! i"
    by (subst y_pdhg_step) (rule refl)
  also have "\<dots> = poisson_prox (S_A E ! i) (d_sino E ! i) (?c ! i)"
    using assms 6 by (simp only: nth_prox_dual_data)
  finally show ?thesis by (simp only: 5 3 1)
qed

lemma ys_lm_step_data_nth:
  assumes "k < num_subsets E" "k < length (ys s)"
  shows "ys (lm_step E k s) ! k =
     prox_dual_data (S_A_lm E ! k) (subset_slice k (num_subsets E) (mu E))
        (vadd (ys s ! k)
           (vmul (S_A_lm E ! k)
              (vadd (op_call (lm_pet_subset_linop_seq E ! k) (x_lmspdhg (lm_step E k s)))
                    (subset_slice k (num_subsets E) (contamination_list E)))))"
  using assms by (simp only: ys_lm_step_data nth_list_update_eq)

lemma nth_ys_lm_step:
  assumes "k < num_subsets E" "k < length (ys s)" "i < length (ys s ! k)"
    "i < length (S_A_lm E ! k)" "i < length (subset_slice k (num_subsets E) (mu E))"
    "i < length (subset_slice k (num_subsets E) (contamination_list E))"
    "i < length (op_call (lm_pet_subset_linop_seq E ! k) (x_lmspdhg (lm_step E k s)))"
  shows "ys (lm_step E k s) ! k ! i =
     poisson_prox (S_A_lm E ! k ! i) (subset_slice k (num_subsets E) (mu E) ! i)
       (ys s ! k ! i + S_A_lm E ! k ! i *
          (op_call (lm_pet_subset_linop_seq E ! k) (x_lmspdhg (lm_step E k s)) ! i
             + subset_slice k (num_subsets E) (contamination_list E) ! i))"
proof -
  let ?A = "op_call (lm_pet_subset_linop_seq E ! k) (x_lmspdhg (lm_step E k s))"
  let ?sl = "subset_slice k (num_subsets E) (contamination_list E)"
  let ?ax = "vadd ?A ?sl"
  let ?S = "S_A_lm E ! k"
  let ?c = "vadd (ys s ! k) (vmul ?S ?ax)"
  have 1: "?ax ! i = ?A ! i + ?sl ! i"
    using assms by (simp only: nth_vadd)
  have 2: "i < length ?ax" using assms by simp
  have 3: "vmul ?S ?ax ! i = ?S ! i * ?ax ! i"
    using assms 2 by (simp only: nth_vmul)
  have 4: "i < length (vmul ?S ?ax)" using assms 2 by simp
  have 5: "?c ! i = ys s ! k ! i + vmul ?S ?ax ! i"
    using assms 4 by (simp only: nth_vadd)
  have 6: "i < length ?c" using assms 4 by simp
  have "ys (lm_step E k s) ! k ! i
      = prox_dual_data ?S (subset_slice k (num_subsets E) (mu E)) ?c ! i"
    using assms(1,2) by (simp only: ys_lm_step_data_nth)
  also have "\<dots> = poisson_prox (?S ! i) (subset_slice k (num_subsets E) (mu E) ! i) (?c ! i)"
    using assms 6 by (simp only: nth_prox_dual_data)
  finally show ?thesis by (simp only: 5 3 1)
qed

lemma clamp_denom_ge_one: "\<forall>v\<in>set (clamp_denom dn). 1 \<le> v"
  by (auto simp: clamp_denom_def)

lemma length_clamp_denom [simp]: "length (clamp_denom dn) = length dn"
  by (simp add: clamp_denom_def)

lemma nth_clamp_denom:
  "j < length dn \<Longrightarrow> clamp_denom dn ! j = (if dn ! j < 1 then 1 else dn ! j)"
  by (simp add: clamp_denom_def)

lemma length_vector_norm_axis0:
  "u \<noteq> [] \<Longrightarrow> length (vector_norm_axis0 u) = length (hd u)"
  by (cases u) (simp_all add: vector_norm_axis0_def)

lemma nth_vector_norm_axis0:
  "u \<noteq> [] \<Longrightarrow> j < length (hd u) \<Longrightarrow>
   vector_norm_axis0 u ! j = sqrt (\<Sum>r\<leftarrow>u. (r ! j)\<^sup>2)"
  by (cases u) (simp_all add: vector_norm_axis0_def)

lemma nth_tv_prox:
  assumes "\<forall>r\<in>set u. length r = n" "ci < length u" "j < n"
  shows "tv_prox u ! ci ! j = u ! ci ! j / clamp_denom (vector_norm_axis0 u) ! j"
proof -
  have ne: "u \<noteq> []" using assms(2) by auto
  then have "hd u \<in> set u" by simp
  then have hd: "length (hd u) = n" using assms(1) by blast
  have len: "length (u ! ci) = n" using assms(1,2) by simp
  have ld: "length (clamp_denom (vector_norm_axis0 u)) = n"
    using ne hd by (simp add: length_vector_norm_axis0)
  have "tv_prox u ! ci = vdiv (u ! ci) (clamp_denom (vector_norm_axis0 u))"
    using assms(2) by (simp add: tv_prox_def Let_def)
  then show ?thesis using len ld assms(3) by (simp add: nth_vdiv)
qed

lemma tv_prox_inside:
  assumes "\<forall>r\<in>set u. length r = n" "ci < length u" "j < n"
    and "vector_norm_axis0 u ! j \<le> 1"
  shows "clamp_denom (vector_norm_axis0 u) ! j = 1" and "tv_prox u ! ci ! j = u ! ci ! j"
proof -
  have ne: "u \<noteq> []" using assms(2) by auto
  then have "hd u \<in> set u" by simp
  then have hd: "length (hd u) = n" using assms(1) by blast
  have "j < length (vector_norm_axis0 u)"
    using ne hd assms(3) by (simp add: length_vector_norm_axis0)
  then show c: "clamp_denom (vector_norm_axis0 u) ! j = 1"
    using assms(4) by (simp add: nth_clamp_denom)
  show "tv_prox u ! ci ! j = u ! ci ! j"
    using nth_tv_prox [OF assms(1,2,3)] c by simp
qed

lemma sum_list_sq_div:
  fixes b :: real
  shows "(\<Sum>r\<leftarrow>u. (r ! j / b)\<^sup>2) = (\<Sum>r\<leftarrow>u. (r ! j)\<^sup>2) / b\<^sup>2"
  by (induction u) (simp_all add: power_divide add_divide_distrib)

lemma gdiv_scalar_shape:
  "\<forall>r\<in>set u. length r = n \<Longrightarrow> \<forall>r\<in>set (gdiv_scalar u b). length r = n"
  by (auto simp: gdiv_scalar_def)

lemma length_gdiv_scalar [simp]: "length (gdiv_scalar u b) = length u"
  by (simp add: gdiv_scalar_def)

lemma nth_gdiv_scalar:
  "ci < length u \<Longrightarrow> j < length (u ! ci) \<Longrightarrow> gdiv_scalar u b ! ci ! j = u ! ci ! j / b"
  by (simp add: gdiv_scalar_def)

lemma sum_list_gdiv_scalar:
  assumes "\<forall>r\<in>set u. j < length r"
  shows "(\<Sum>r\<leftarrow>gdiv_scalar u b. (r ! j)\<^sup>2) = (\<Sum>r\<leftarrow>u. (r ! j / b)\<^sup>2)"
  using assms by (induction u) (simp_all add: gdiv_scalar_def)

lemma vector_norm_gdiv_scalar:
  assumes "\<forall>r\<in>set u. length r = n" "u \<noteq> []" "j < n" "0 < b"
  shows "vector_norm_axis0 (gdiv_scalar u b) ! j = vector_norm_axis0 u ! j / b"
proof -
  have "hd u \<in> set u" using assms(2) by simp
  then have hd: "length (hd u) = n" using assms(1) by blast
  have ne': "gdiv_scalar u b \<noteq> []" using assms(2) by (simp add: gdiv_scalar_def)
  have "hd (gdiv_scalar u b) \<in> set (gdiv_scalar u b)" using ne' by simp
  then have hd': "length (hd (gdiv_scalar u b)) = n"
    using gdiv_scalar_shape [OF assms(1)] by blast
  have jl: "\<forall>r\<in>set u. j < length r" using assms(1,3) by simp
  have "vector_norm_axis0 (gdiv_scalar u b) ! j = sqrt (\<Sum>r\<leftarrow>gdiv_scalar u b. (r ! j)\<^sup>2)"
    using ne' hd' assms(3) by (simp add: nth_vector_norm_axis0)
  also have "\<dots> = sqrt ((\<Sum>r\<leftarrow>u. (r ! j)\<^sup>2) / b\<^sup>2)"
    by (simp only: sum_list_gdiv_scalar [OF jl] sum_list_sq_div)
  also have "\<dots> = sqrt (\<Sum>r\<leftarrow>u. (r ! j)\<^sup>2) / b"
    using assms(4) by (simp add: real_sqrt_divide)
  also have "\<dots> = vector_norm_axis0 u ! j / b"
    using assms(2,3) hd by (simp add: nth_vector_norm_axis0)
  finally show ?thesis .
qed

lemma nth_gscale:
  "ci < length u \<Longrightarrow> j < length (u ! ci) \<Longrightarrow> gscale b u ! ci ! j = b * u ! ci ! j"
  by (simp add: gscale_def)

lemma length_tv_prox [simp]: "length (tv_prox u) = length u"
  by (simp add: tv_prox_def Let_def)

lemma tv_prox_shape:
  assumes "\<forall>r\<in>set u. length r = n"
  shows "\<forall>r\<in>set (tv_prox u). length r = n"
proof (cases u)
  case Nil
  then show ?thesis by (simp add: tv_prox_def Let_def)
next
  case (Cons c cs)
  then have "length (hd u) = n" using assms by simp
  then have "length (clamp_denom (vector_norm_axis0 u)) = n"
    using Cons by (simp add: length_vector_norm_axis0)
  then show ?thesis using assms by (auto simp: tv_prox_def Let_def)
qed

lemma w_update_inside:
  assumes "0 < b" "\<forall>r\<in>set (w_candidate sg w gx). length r = n"
    "ci < length (w_candidate sg w gx)" "j < n"
    "vector_norm_axis0 (w_candidate sg w gx) ! j \<le> b"
  shows "w_update b sg w gx ! ci ! j = w_candidate sg w gx ! ci ! j"
proof -
  let ?c = "w_candidate sg w gx"
  let ?u = "gdiv_scalar ?c b"
  have ne: "?c \<noteq> []" using assms(3) by auto
  have sh: "\<forall>r\<in>set ?u. length r = n" using assms(2) by (rule gdiv_scalar_shape)
  have ci: "ci < length ?u" using assms(3) by simp
  have "vector_norm_axis0 ?u ! j = vector_norm_axis0 ?c ! j / b"
    using assms(2) ne assms(4,1) by (rule vector_norm_gdiv_scalar)
  also have "\<dots> \<le> 1" using assms(1,5) by simp
  finally have le: "vector_norm_axis0 ?u ! j \<le> 1" .
  have t: "tv_prox ?u ! ci ! j = ?u ! ci ! j"
    using sh ci assms(4) le by (rule tv_prox_inside(2))
  have lc: "length (?c ! ci) = n" using assms(2,3) by simp
  have lt: "length (tv_prox ?u ! ci) = n"
    using tv_prox_shape [OF sh] ci by simp
  have "w_update b sg w gx ! ci ! j = b * tv_prox ?u ! ci ! j"
    unfolding w_update_def using ci lt assms(4) by (simp add: nth_gscale)
  also have "\<dots> = b * (?c ! ci ! j / b)"
    using t assms(3,4) lc by (simp add: nth_gdiv_scalar)
  also have "\<dots> = ?c ! ci ! j" using assms(1) by simp
  finally show ?thesis .
qed

lemma w_pdhg_step:
  "w_pdhg (pdhg_step E s)
     = w_update (beta E) (S_G E) (w_pdhg s) (grad_call (op_G E) (x_pdhg (pdhg_step E s)))"
  by (simp add: pdhg_step_def Let_def)

lemma w_lm_step_grad:
  "\<not> k < num_subsets E \<Longrightarrow>
   w_lm (lm_step E k s)
     = w_update (beta E) (S_G E) (w_lm s) (grad_call (op_G E) (x_lmspdhg (lm_step E k s)))"
  by (simp add: lm_step_def Let_def)

lemma length_proj_nonneg [simp]: "length (proj_nonneg v) = length v"
  by (simp add: proj_nonneg_def)

lemma gshape_gscale: "gshape sh u \<Longrightarrow> gshape sh (gscale c u)"
  by (simp add: gshape_def gscale_def list_all_iff)

lemma gshape_gdiv_scalar: "gshape sh u \<Longrightarrow> gshape sh (gdiv_scalar u c)"
  by (simp add: gshape_def gdiv_scalar_def list_all_iff)

lemma gshape_map2:
  assumes "gshape sh u" "gshape sh v"
  shows "gshape sh (gadd u v)" and "gshape sh (gsub u v)"
proof -
  have "\<And>p. p \<in> set (zip u v) \<Longrightarrow> length (fst p) = snd sh \<and> length (snd p) = snd sh"
    using assms by (auto simp: gshape_def list_all_iff dest: set_zip_leftD set_zip_rightD)
  then show "gshape sh (gadd u v)" and "gshape sh (gsub u v)"
    using assms by (auto simp: gshape_def gadd_def gsub_def list_all_iff)
qed

lemma gshape_tv_prox: "gshape sh u \<Longrightarrow> gshape sh (tv_prox u)"
  using tv_prox_shape [of u "snd sh"] by (simp add: gshape_def list_all_iff)

lemma gshape_w_update:
  assumes "gshape sh w" "gshape sh gx"
  shows "gshape sh (w_update b sg w gx)"
  unfolding w_update_def w_candidate_def
  by (intro gshape_gscale gshape_tv_prox gshape_gdiv_scalar gshape_map2(1) assms)

lemma vadd_cancel_difference:
  assumes "length a = n" "length a' = n" "length c = n" "length c' = n"
  shows "vadd (vadd a c) (vadd (vsub a' a) (vsub c' c)) = vadd a' c'"
  using assms by (intro nth_equalityI) (simp_all add: nth_vadd nth_vsub)

lemma z_pdhg_step:
  "z_pdhg (pdhg_step E s) =
     vadd (z_pdhg s)
       (vadd (op_adjoint (pet_lin_op E) (vsub (y_pdhg (pdhg_step E s)) (y_pdhg s)))
             (grad_adjoint (op_G E) (gsub (w_pdhg (pdhg_step E s)) (w_pdhg s))))"
  by (simp add: pdhg_step_def Let_def)

lemma zbar_pdhg_step:
  "zbar_pdhg (pdhg_step E s) =
     vadd (z_pdhg (pdhg_step E s))
       (vadd (op_adjoint (pet_lin_op E) (vsub (y_pdhg (pdhg_step E s)) (y_pdhg s)))
             (grad_adjoint (op_G E) (gsub (w_pdhg (pdhg_step E s)) (w_pdhg s))))"
  by (simp add: pdhg_step_def Let_def)

lemma pdhg_step_shapes:
  assumes E: "pdhg_shapes E m n" and s: "pdhg_state_shapes E m n s"
  shows "pdhg_state_shapes E m n (pdhg_step E s)"
proof -
  let ?s' = "pdhg_step E s"
  have lx: "length (x_pdhg ?s') = n"
    using E s by (simp add: x_pdhg_step pdhg_shapes_def pdhg_state_shapes_def)
  have la: "length (op_call (pet_lin_op E) (x_pdhg ?s')) = m"
    using E lx by (simp add: pdhg_shapes_def)
  have ly: "length (y_pdhg ?s') = m"
    using E s la by (subst y_pdhg_step) (simp add: pdhg_shapes_def pdhg_state_shapes_def)
  have gx: "gshape (out_shape (op_G E)) (grad_call (op_G E) (x_pdhg ?s'))"
    using E lx by (simp add: pdhg_shapes_def)
  have w: "gshape (out_shape (op_G E)) (w_pdhg s)"
    using s by (simp add: pdhg_state_shapes_def)
  have w': "gshape (out_shape (op_G E)) (w_pdhg ?s')"
    by (subst w_pdhg_step) (rule gshape_w_update [OF w gx])
  have "length (vsub (y_pdhg ?s') (y_pdhg s)) = m"
    using ly s by (simp add: pdhg_state_shapes_def)
  then have l1: "length (op_adjoint (pet_lin_op E) (vsub (y_pdhg ?s') (y_pdhg s))) = n"
    using E by (simp add: pdhg_shapes_def)
  have l2: "length (grad_adjoint (op_G E) (gsub (w_pdhg ?s') (w_pdhg s))) = n"
    using E gshape_map2(2) [OF w' w] by (simp add: pdhg_shapes_def)
  have lz: "length (z_pdhg ?s') = n"
    using s l1 l2 by (subst z_pdhg_step) (simp add: pdhg_state_shapes_def)
  have lzb: "length (zbar_pdhg ?s') = n"
    using lz l1 l2 by (subst zbar_pdhg_step) simp
  show ?thesis
    unfolding pdhg_state_shapes_def using lx ly w' lz lzb by simp
qed

lemma pdhg_step_z_relation:
  assumes E: "pdhg_shapes E m n" and A: "adjoints_additive E m"
    and s: "pdhg_state_shapes E m n s" and z: "z_relation E s"
  shows "z_relation E (pdhg_step E s)"
proof -
  let ?s' = "pdhg_step E s"
  let ?AT = "op_adjoint (pet_lin_op E)"
  let ?GT = "grad_adjoint (op_G E)"
  have s': "pdhg_state_shapes E m n ?s'" using E s by (rule pdhg_step_shapes)
  have ly: "length (y_pdhg s) = m" and ly': "length (y_pdhg ?s') = m"
    and w: "gshape (out_shape (op_G E)) (w_pdhg s)"
    and w': "gshape (out_shape (op_G E)) (w_pdhg ?s')"
    using s s' by (simp_all add: pdhg_state_shapes_def)
  have a: "?AT (vsub (y_pdhg ?s') (y_pdhg s)) = vsub (?AT (y_pdhg ?s')) (?AT (y_pdhg s))"
    using A ly ly' by (simp add: adjoints_additive_def)
  have g: "?GT (gsub (w_pdhg ?s') (w_pdhg s)) = vsub (?GT (w_pdhg ?s')) (?GT (w_pdhg s))"
    using A w w' by (simp add: adjoints_additive_def)
  have n1: "length (?AT (y_pdhg s)) = n" and n2: "length (?AT (y_pdhg ?s')) = n"
    and n3: "length (?GT (w_pdhg s)) = n" and n4: "length (?GT (w_pdhg ?s')) = n"
    using E ly ly' w w' by (simp_all add: pdhg_shapes_def)
  have "z_pdhg ?s' = vadd (vadd (?AT (y_pdhg s)) (?GT (w_pdhg s)))
       (vadd (vsub (?AT (y_pdhg ?s')) (?AT (y_pdhg s))) (vsub (?GT (w_pdhg ?s')) (?GT (w_pdhg s))))"
    using z by (subst z_pdhg_step) (simp only: a g z_relation_def)
  also have "\<dots> = vadd (?AT (y_pdhg ?s')) (?GT (w_pdhg ?s'))"
    using n1 n2 n3 n4 by (rule vadd_cancel_difference)
  finally show ?thesis by (simp only: z_relation_def)
qed

lemma pdhg_init_z_relation: "z_relation E (pdhg_init E x_mlem)"
  by (simp add: z_relation_def pdhg_init_def Let_def)

lemma gshape_replicate: "gshape sh (replicate (fst sh) (replicate (snd sh) 0))"
  by (simp add: gshape_def list_all_iff)

lemma pdhg_init_shapes:
  assumes E: "pdhg_shapes E m n" and x: "length x_mlem = n"
  shows "pdhg_state_shapes E m n (pdhg_init E x_mlem)"
proof -
  let ?y = "map (\<lambda>q. 1 - q)
              (vdiv (d_sino E) (vadd (op_call (pet_lin_op E) x_mlem) (contamination E)))"
  let ?w = "replicate (fst (out_shape (op_G E))) (replicate (snd (out_shape (op_G E))) (0::real))"
  have ly: "length ?y = m" using E x by (simp add: pdhg_shapes_def)
  have w: "gshape (out_shape (op_G E)) ?w" by (rule gshape_replicate)
  have l1: "length (op_adjoint (pet_lin_op E) ?y) = n"
    using E ly by (simp only: pdhg_shapes_def)
  have l2: "length (grad_adjoint (op_G E) ?w) = n"
    using E w by (simp only: pdhg_shapes_def)
  show ?thesis
    using x ly w l1 l2 by (simp add: pdhg_state_shapes_def pdhg_init_def Let_def)
qed

lemma pdhg_loop_z_relation:
  assumes E: "pdhg_shapes E m n" and A: "adjoints_additive E m"
  shows "pdhg_state_shapes E m n s \<Longrightarrow> z_relation E s \<Longrightarrow>
     pdhg_state_shapes E m n (pdhg_loop E k s) \<and> z_relation E (pdhg_loop E k s)"
proof (induction k arbitrary: s)
  case 0
  then show ?case by simp
next
  case (Suc k)
  have 1: "pdhg_state_shapes E m n (pdhg_step E s)"
    using E Suc.prems(1) by (rule pdhg_step_shapes)
  have 2: "z_relation E (pdhg_step E s)"
    using E A Suc.prems by (rule pdhg_step_z_relation)
  show ?case using Suc.IH [OF 1 2] by simp
qed

lemma toy_pdhg_shapes: "pdhg_shapes toy_pdhg_env 2 2"
  by (simp add: pdhg_shapes_def toy_pdhg_env_def toy_lin_op_def toy_op_G_def gshape_def)

lemma toy_adjoints_additive: "adjoints_additive toy_pdhg_env 2"
proof -
  have a: "\<And>a b :: vec. length a = 2 \<and> length b = 2 \<Longrightarrow>
      [vsub a b ! 0, vsub a b ! 0 + vsub a b ! 1]
        = vsub [a ! 0, a ! 0 + a ! 1] [b ! 0, b ! 0 + b ! 1]"
    by (simp add: nth_vsub) (simp add: vsub_def)
  have g: "\<And>u v :: gvec. gshape (1, 2) u \<and> gshape (1, 2) v \<Longrightarrow>
      [- (gsub u v ! 0 ! 0), gsub u v ! 0 ! 0] = vsub [- (u ! 0 ! 0), u ! 0 ! 0] [- (v ! 0 ! 0), v ! 0 ! 0]"
  proof -
    fix u v :: gvec
    assume h: "gshape (1, 2) u \<and> gshape (1, 2) v"
    then have lu: "length u = 1" and lv: "length v = 1" by (simp_all add: gshape_def)
    have "u ! 0 \<in> set u" "v ! 0 \<in> set v" using lu lv by simp_all
    then have l0: "length (u ! 0) = 2" "length (v ! 0) = 2"
      using h by (auto simp: gshape_def list_all_iff)
    have "gsub u v ! 0 = vsub (u ! 0) (v ! 0)" using lu lv by (simp add: gsub_def)
    then have "gsub u v ! 0 ! 0 = u ! 0 ! 0 - v ! 0 ! 0" using l0 by (simp add: nth_vsub)
    then show "[- (gsub u v ! 0 ! 0), gsub u v ! 0 ! 0]
        = vsub [- (u ! 0 ! 0), u ! 0 ! 0] [- (v ! 0 ! 0), v ! 0 ! 0]"
      by (simp add: vsub_def)
  qed
  show ?thesis
    unfolding adjoints_additive_def
    using a g by (simp add: toy_pdhg_env_def toy_lin_op_def toy_op_G_def)
qed

lemma finite_vec_map_Fin: "finite_vec (map Fin v) = Some v"
  by (induction v) simp_all

lemma finite_vec_SomeD: "finite_vec fs = Some v \<Longrightarrow> fs = map Fin v"
proof (induction fs arbitrary: v)
  case Nil
  then show ?case by simp
next
  case (Cons f fs)
  show ?case
  proof (cases f)
    case (Fin r)
    with Cons.prems obtain v' where v': "finite_vec fs = Some v'" and v: "v = r # v'"
      by (auto split: option.splits)
    from Cons.IH [OF v'] Fin v show ?thesis by simp
  qed (use Cons.prems in simp_all)
qed

lemma finite_vecs_SomeD: "finite_vecs fs = Some vs \<Longrightarrow> fs = map (map Fin) vs"
proof (induction fs arbitrary: vs)
  case Nil
  then show ?case by simp
next
  case (Cons f fs)
  from Cons.prems obtain v vs' where v: "finite_vec f = Some v"
    and vs': "finite_vecs fs = Some vs'" and e: "vs = v # vs'"
    by (auto split: option.splits)
  from Cons.IH [OF vs'] finite_vec_SomeD [OF v] e show ?case by simp
qed

lemma flt_fle: "flt a b \<Longrightarrow> fle a b"
  by (cases a; cases b) auto

lemma fle_refl: "a \<noteq> NaN \<Longrightarrow> fle a a"
  by (cases a) auto

lemma fle_trans: "fle a b \<Longrightarrow> fle b c \<Longrightarrow> fle a c"
  by (cases a; cases b; cases c) auto

lemma not_flt_fle: "a \<noteq> NaN \<Longrightarrow> b \<noteq> NaN \<Longrightarrow> \<not> flt a b \<Longrightarrow> fle b a"
  by (cases a; cases b) auto

lemma fmin2_props:
  assumes "a \<noteq> NaN" "b \<noteq> NaN"
  shows "fmin2 a b \<noteq> NaN" "fle (fmin2 a b) a" "fle (fmin2 a b) b" "fmin2 a b = a \<or> fmin2 a b = b"
  using assms by (cases a; cases b; auto simp: fmin2_def)+

lemma where_lt_is_fmin2:
  "a \<noteq> NaN \<Longrightarrow> b \<noteq> NaN \<Longrightarrow> (if flt a b then a else b) = fmin2 a b"
  by (cases a; cases b) (auto simp: fmin2_def)

lemma fmin_list_NaN: "NaN \<in> set col \<Longrightarrow> fmin_list col = NaN"
  by (induction col) (auto simp: fmin2_def)

lemma fmin2_PInf: "a \<noteq> NaN \<Longrightarrow> fmin2 a PInf = a"
  by (cases a) (auto simp: fmin2_def)

lemma fmin_list_all:
  "NaN \<notin> set col \<Longrightarrow>
   fmin_list col \<noteq> NaN \<and> (\<forall>a\<in>set col. fle (fmin_list col) a) \<and>
   (col \<noteq> [] \<longrightarrow> fmin_list col \<in> set col)"
proof (induction col)
  case Nil
  then show ?case by simp
next
  case (Cons a col)
  then have n: "a \<noteq> NaN" "NaN \<notin> set col" by auto
  from Cons.IH [OF n(2)] have m: "fmin_list col \<noteq> NaN"
    and le: "\<forall>e\<in>set col. fle (fmin_list col) e"
    and mem: "col \<noteq> [] \<longrightarrow> fmin_list col \<in> set col" by simp_all
  have 1: "fmin_list (a # col) \<noteq> NaN" using fmin2_props(1) [OF n(1) m] by simp
  have 2: "\<forall>e\<in>set (a # col). fle (fmin_list (a # col)) e"
  proof
    fix e assume "e \<in> set (a # col)"
    then consider "e = a" | "e \<in> set col" by auto
    then show "fle (fmin_list (a # col)) e"
    proof cases
      case 1
      then show ?thesis using fmin2_props(2) [OF n(1) m] by simp
    next
      case 2
      then have "fle (fmin_list col) e" using le by blast
      moreover have "fle (fmin_list (a # col)) (fmin_list col)"
        using fmin2_props(3) [OF n(1) m] by simp
      ultimately show ?thesis using fle_trans by blast
    qed
  qed
  have 3: "fmin_list (a # col) \<in> set (a # col)"
  proof (cases "col = []")
    case True
    then show ?thesis using n(1) by (simp add: fmin2_PInf)
  next
    case False
    then have "fmin_list col \<in> set col" using mem by simp
    then show ?thesis using fmin2_props(4) [OF n(1) m] by auto
  qed
  show ?case using 1 2 3 by simp
qed

lemma length_combine_T [simp]: "length (combine_T T_A T_G) = length T_A"
  by (simp add: combine_T_def)

lemma combine_T_nth:
  "j < length T_A \<Longrightarrow> combine_T T_A T_G ! j = (if flt (T_A ! j) T_G then T_A ! j else T_G)"
  by (simp add: combine_T_def)

lemma length_combine_T_lm [simp]: "length (combine_T_lm rows T_G n_img) = n_img"
  by (simp add: combine_T_lm_def min_axis0_def)

lemma combine_T_lm_nth:
  "j < n_img \<Longrightarrow>
   combine_T_lm rows T_G n_img ! j = fmin_list (map (\<lambda>r. r ! j) rows @ [T_G])"
  by (simp add: combine_T_lm_def min_axis0_def fill_T_A_lm_def)

lemma combine_T_order:
  assumes "j < length T_A" "T_A ! j \<noteq> NaN" "T_G \<noteq> NaN"
  shows "combine_T T_A T_G ! j = fmin2 (T_A ! j) T_G"
    and "fle (combine_T T_A T_G ! j) (T_A ! j)" and "fle (combine_T T_A T_G ! j) T_G"
proof -
  show e: "combine_T T_A T_G ! j = fmin2 (T_A ! j) T_G"
    using assms(1) where_lt_is_fmin2 [OF assms(2,3)] by (simp add: combine_T_nth)
  show "fle (combine_T T_A T_G ! j) (T_A ! j)"
    unfolding e using assms(2,3) by (rule fmin2_props(2))
  show "fle (combine_T T_A T_G ! j) T_G"
    unfolding e using assms(2,3) by (rule fmin2_props(3))
qed

lemma combine_T_lm_order:
  assumes j: "j < n_img" and g: "T_G \<noteq> NaN" and r: "\<forall>r\<in>set rows. r ! j \<noteq> NaN"
  shows "\<forall>i<length rows. fle (combine_T_lm rows T_G n_img ! j) (rows ! i ! j)"
    and "fle (combine_T_lm rows T_G n_img ! j) T_G"
    and "combine_T_lm rows T_G n_img ! j = T_G \<or>
         (\<exists>i<length rows. combine_T_lm rows T_G n_img ! j = rows ! i ! j)"
proof -
  let ?col = "map (\<lambda>r. r ! j) rows @ [T_G]"
  have e: "combine_T_lm rows T_G n_img ! j = fmin_list ?col"
    using j by (rule combine_T_lm_nth)
  have n: "NaN \<notin> set ?col" using g r by auto
  note p = fmin_list_all [OF n]
  have le: "\<forall>a\<in>set ?col. fle (fmin_list ?col) a" using p by simp
  show "\<forall>i<length rows. fle (combine_T_lm rows T_G n_img ! j) (rows ! i ! j)"
    unfolding e using le by simp
  show "fle (combine_T_lm rows T_G n_img ! j) T_G"
    unfolding e using le by simp
  have "fmin_list ?col \<in> set ?col" using p by simp
  then have "fmin_list ?col = T_G \<or> fmin_list ?col \<in> (\<lambda>r. r ! j) ` set rows" by auto
  then show "combine_T_lm rows T_G n_img ! j = T_G \<or>
         (\<exists>i<length rows. combine_T_lm rows T_G n_img ! j = rows ! i ! j)"
    unfolding e by (auto simp: in_set_conv_nth)
qed

lemma map_err_Inr:
  "map_err f xs = Inr out \<Longrightarrow>
   length out = length xs \<and> (\<forall>i<length xs. f (xs ! i) = Inr (out ! i))"
proof (induction xs arbitrary: out)
  case Nil
  then show ?case by simp
next
  case (Cons a xs)
  from Cons.prems obtain b bs where b: "f a = Inr b" and bs: "map_err f xs = Inr bs"
    and out: "out = b # bs" by (auto split: sum.splits)
  from Cons.IH [OF bs] b out show ?case by (auto simp: nth_Cons split: nat.splits)
qed

lemma pdhg_step_sizes_Inr:
  assumes "pdhg_step_sizes ovf gamma rho T_G lin n_img n_meas = Inr st"
  shows "\<exists>S TA. calc_S_A ovf gamma rho (op_call lin (replicate n_img 1)) = Inr S \<and>
      calc_T_A ovf gamma rho (op_adjoint lin (replicate n_meas 1)) = Inr TA \<and>
      st = (S, combine_T TA (Fin T_G))"
  using assms by (auto simp: pdhg_step_sizes_def split: sum.splits)

lemma pdhg_env_of_Some:
  assumes "pdhg_env_of G b sg lin contam d st = Some E"
  shows "fst st = map Fin (S_A E)" and "snd st = map Fin (T_pdhg E)"
    and "pet_lin_op E = lin" and "op_G E = G" and "S_G E = sg" and "beta E = b"
proof -
  from assms obtain s t where s: "finite_vec (fst st) = Some s" and t: "finite_vec (snd st) = Some t"
    and E: "E = \<lparr>op_G = G, beta = b, S_G = sg, pet_lin_op = lin, contamination = contam,
                     d_sino = d, S_A = s, T_pdhg = t\<rparr>"
    by (auto simp: pdhg_env_of_def split: option.splits)
  show "fst st = map Fin (S_A E)" using finite_vec_SomeD [OF s] E by simp
  show "snd st = map Fin (T_pdhg E)" using finite_vec_SomeD [OF t] E by simp
  show "pet_lin_op E = lin" "op_G E = G" "S_G E = sg" "beta E = b" using E by simp_all
qed

lemma lm_step_sizes_Inr:
  assumes "lm_step_sizes ovf gamma rho pa T_G seq mu_list n_sub n_img = Inr st"
  shows "\<exists>SA rows.
      map_err (\<lambda>lm_op. calc_S_A ovf gamma rho (op_call lm_op (replicate n_img 1))) seq = Inr SA \<and>
      map_err (\<lambda>k. calc_T_A_lm ovf gamma rho pa
                 (op_adjoint (seq ! k) (map (\<lambda>m. 1 / m) (subset_slice k n_sub mu_list))))
        [0..<n_sub] = Inr rows \<and>
      st = (SA, combine_T_lm rows (Fin T_G) n_img)"
  using assms by (auto simp: lm_step_sizes_def split: sum.splits)

lemma lm_env_of_Some:
  assumes "lm_env_of G b sg seq contam mu_list n_sub pa pg st = Some L"
  shows "fst st = map (map Fin) (S_A_lm L)" and "snd st = map Fin (T_lm L)"
    and "num_subsets L = n_sub" and "p_a L = pa" and "p_g L = pg"
proof -
  from assms obtain s t where s: "finite_vecs (fst st) = Some s" and t: "finite_vec (snd st) = Some t"
    and L: "L = \<lparr>op_G = G, beta = b, S_G = sg, lm_pet_subset_linop_seq = seq,
                     contamination_list = contam, mu = mu_list, num_subsets = n_sub,
                     S_A_lm = s, T_lm = t, p_a = pa, p_g = pg\<rparr>"
    by (auto simp: lm_env_of_def split: option.splits)
  show "fst st = map (map Fin) (S_A_lm L)" using finite_vecs_SomeD [OF s] L by simp
  show "snd st = map Fin (T_lm L)" using finite_vec_SomeD [OF t] L by simp
  show "num_subsets L = n_sub" "p_a L = pa" "p_g L = pg" using L by simp_all
qed

lemma finite_combine_T:
  assumes e: "map Fin t = combine_T TA (Fin T_G)" and j: "j < length TA"
  shows "t ! j \<le> T_G" and "TA ! j \<noteq> NaN \<longrightarrow> fle (Fin (t ! j)) (TA ! j)"
proof -
  have l: "length t = length TA" using arg_cong [OF e, of length] by simp
  have "Fin (t ! j) = map Fin t ! j" using j l by simp
  also have "\<dots> = (if flt (TA ! j) (Fin T_G) then TA ! j else Fin T_G)"
    unfolding e using j by (rule combine_T_nth)
  finally have c: "Fin (t ! j) = (if flt (TA ! j) (Fin T_G) then TA ! j else Fin T_G)" .
  show "t ! j \<le> T_G"
  proof (cases "flt (TA ! j) (Fin T_G)")
    case True
    then have "flt (Fin (t ! j)) (Fin T_G)" using c by simp
    then show ?thesis by simp
  next
    case False
    then show ?thesis using c by simp
  qed
  show "TA ! j \<noteq> NaN \<longrightarrow> fle (Fin (t ! j)) (TA ! j)"
  proof
    assume n: "TA ! j \<noteq> NaN"
    show "fle (Fin (t ! j)) (TA ! j)"
    proof (cases "flt (TA ! j) (Fin T_G)")
      case True
      then have "TA ! j = Fin (t ! j)" using c by simp
      then show ?thesis by simp
    next
      case False
      then have "Fin (t ! j) = Fin T_G" using c by simp
      moreover have "fle (Fin T_G) (TA ! j)" using n False by (intro not_flt_fle) simp_all
      ultimately show ?thesis by simp
    qed
  qed
qed

lemma finite_combine_T_lm:
  assumes e: "map Fin t = combine_T_lm rows (Fin T_G) n_img" and j: "j < n_img"
  shows "t ! j \<le> T_G" and "\<forall>i<length rows. fle (Fin (t ! j)) (rows ! i ! j)"
proof -
  let ?col = "map (\<lambda>r. r ! j) rows @ [Fin T_G]"
  have l: "length t = n_img" using arg_cong [OF e, of length] by simp
  have "Fin (t ! j) = map Fin t ! j" using j l by simp
  also have "\<dots> = fmin_list ?col" unfolding e using j by (rule combine_T_lm_nth)
  finally have c: "fmin_list ?col = Fin (t ! j)" by simp
  have n: "NaN \<notin> set ?col"
  proof
    assume "NaN \<in> set ?col"
    then have "fmin_list ?col = NaN" by (rule fmin_list_NaN)
    then show False using c by simp
  qed
  have le: "\<forall>a\<in>set ?col. fle (Fin (t ! j)) a" using fmin_list_all [OF n] c by simp
  then have "fle (Fin (t ! j)) (Fin T_G)" by simp
  then show "t ! j \<le> T_G" by simp
  show "\<forall>i<length rows. fle (Fin (t ! j)) (rows ! i ! j)" using le by simp
qed

lemma float32_overflow_large: "(10 ^ 38 :: real) < float32_overflow"
  by (simp add: float32_overflow_def)

lemma fdiv_small:
  assumes "b \<noteq> 0" "\<bar>c / b\<bar> \<le> 10 ^ 38"
  shows "fdiv float32_overflow c b = Fin (c / b)"
proof -
  have "c / b \<le> 10 ^ 38" "- (c / b) \<le> 10 ^ 38" using assms(2) by (simp_all only: abs_le_iff)
  then have "\<not> float32_overflow \<le> c / b" "\<not> c / b \<le> - float32_overflow"
    using float32_overflow_large by linarith+
  then show ?thesis using assms(1) by (simp add: fdiv_def)
qed

lemma toy_slices:
  "subset_slice 0 2 [1, 2, 1, 2 :: real] = [1, 1]"
  "subset_slice (Suc 0) 2 [1, 2, 1, 2 :: real] = [2, 2]"
  by (simp_all add: subset_slice_def upt_rec)

lemma upt_2: "[0..<2] = [0, Suc 0]"
  by (simp add: upt_rec)

lemma toy_pdhg_step_sizes:
  "pdhg_step_sizes float32_overflow 10 (9999 / 10000) (1 / 10) toy_blind_op 2 2
     = Inr toy_blind_steps"
  by (simp add: pdhg_step_sizes_def calc_S_A_def calc_T_A_def replace_zero_entries_def
        py_div_def toy_blind_op_def toy_blind_steps_def combine_T_def fdiv_small
        numeral_2_eq_2)
     (simp add: fdiv_def)

lemma toy_pdhg_env_of:
  "pdhg_env_of toy_op_G 10 1 toy_blind_op [1, 1] [2, 0] toy_blind_steps = Some toy_blind_env"
  by (simp add: pdhg_env_of_def toy_blind_steps_def toy_blind_env_def)

lemma toy_lm_step_sizes:
  "lm_step_sizes float32_overflow 10 (9999 / 10000) (1 / 4) (1 / 10)
     [toy_blind_op, toy_lin_op] [1, 2, 1, 2] 2 2 = Inr toy_lm_steps"
  by (simp add: lm_step_sizes_def calc_S_A_def calc_T_A_lm_def replace_zero_entries_def
        py_div_def toy_blind_op_def toy_lin_op_def toy_lm_steps_def combine_T_lm_def
        min_axis0_def fill_T_A_lm_def fmin2_def toy_slices fdiv_small upt_2)
     (simp add: fdiv_def)

lemma toy_lm_env_of:
  "lm_env_of toy_op_G 10 1 [toy_blind_op, toy_lin_op] [1, 1, 1, 1] [1, 2, 1, 2] 2 (1 / 4) (1 / 2)
     toy_lm_steps = Some toy_blind_lm_env"
  by (simp add: lm_env_of_def toy_lm_steps_def toy_blind_lm_env_def)

lemma min_positive:
  assumes "\<exists>v\<in>set tmp. 0 < v"
  shows "filter (\<lambda>v. 0 < v) tmp \<noteq> []"
    and "min_list (filter (\<lambda>v. 0 < v) tmp) = Min {e \<in> set tmp. 0 < e}"
    and "0 < Min {e \<in> set tmp. 0 < (e::real)}"
proof -
  show ne: "filter (\<lambda>v. 0 < v) tmp \<noteq> []"
    using assms by (simp add: filter_empty_conv)
  then have "min_list (filter (\<lambda>v. 0 < v) tmp) = Min (set (filter (\<lambda>v. 0 < v) tmp))"
    by (rule min_list_Min)
  then show "min_list (filter (\<lambda>v. 0 < v) tmp) = Min {e \<in> set tmp. 0 < e}"
    by simp
  have "finite {e \<in> set tmp. 0 < e}" by simp
  moreover have "{e \<in> set tmp. 0 < e} \<noteq> {}" using assms by auto
  ultimately have "Min {e \<in> set tmp. 0 < e} \<in> {e \<in> set tmp. 0 < e}" by (rule Min_in)
  then show "0 < Min {e \<in> set tmp. 0 < e}" by simp
qed

lemma replace_zero_entries_Inr:
  assumes "\<exists>v\<in>set tmp. 0 < v"
  shows "replace_zero_entries tmp
     = Inr (map (\<lambda>v. if v = 0 then Min {e \<in> set tmp. 0 < e} else v) tmp)"
proof -
  obtain p ps where f: "filter (\<lambda>v. 0 < v) tmp = p # ps"
    using min_positive(1) [OF assms] by (cases "filter (\<lambda>v. 0 < v) tmp") auto
  have "min_list (p # ps) = Min {e \<in> set tmp. 0 < e}"
    using min_positive(2) [OF assms] by (simp only: f)
  then show ?thesis
    unfolding replace_zero_entries_def by (simp only: f list.case)
qed

lemma replace_zero_entries_Inl:
  assumes "\<not> (\<exists>v\<in>set tmp. 0 < v)"
  shows "replace_zero_entries tmp = Inl ValueError"
proof -
  have "filter (\<lambda>v. 0 < v) tmp = []" using assms by (simp add: filter_empty_conv)
  then show ?thesis by (simp add: replace_zero_entries_def)
qed

lemma calc_S_A_Inr:
  assumes "\<exists>v\<in>set tmp. 0 < v"
  shows "calc_S_A ovf gamma rho tmp
     = Inr (map (\<lambda>v. fdiv ovf (gamma * rho) (if v = 0 then Min {e \<in> set tmp. 0 < e} else v)) tmp)"
  by (simp add: calc_S_A_def replace_zero_entries_Inr [OF assms] comp_def)

lemma fdiv_Fin:
  assumes "0 < c" "0 < b" "c / b < ovf"
  shows "fdiv ovf c b = Fin (c / b)" and "0 < c / b"
proof -
  show p: "0 < c / b" using assms(1,2) by simp
  then have "\<not> c / b \<le> - ovf" using assms(3) by linarith
  then show "fdiv ovf c b = Fin (c / b)" using assms(2,3) by (simp add: fdiv_def)
qed

lemma calc_S_A_positive:
  assumes pos: "\<exists>v\<in>set tmp. 0 < v" and nn: "\<forall>v\<in>set tmp. 0 \<le> v" and c: "0 < gamma * rho"
    and ov: "gamma * rho / Min {e \<in> set tmp. 0 < e} < ovf"
  shows "\<exists>S. calc_S_A ovf gamma rho tmp = Inr (map Fin S) \<and> length S = length tmp \<and>
     (\<forall>q\<in>set S. 0 < q)"
proof -
  let ?m = "Min {e \<in> set tmp. 0 < e}"
  let ?dv = "\<lambda>v. if v = 0 then ?m else v"
  let ?S = "map (\<lambda>v. gamma * rho / ?dv v) tmp"
  have m: "0 < ?m" using pos by (rule min_positive(3))
  have dv: "?m \<le> ?dv v" if "v \<in> set tmp" for v
  proof (cases "v = 0")
    case True
    then show ?thesis by simp
  next
    case False
    then have "v \<in> {e \<in> set tmp. 0 < e}" using nn that by (auto simp: less_le)
    then have "?m \<le> v" by (intro Min_le) simp_all
    then show ?thesis using False by simp
  qed
  have q: "fdiv ovf (gamma * rho) (?dv v) = Fin (gamma * rho / ?dv v) \<and> 0 < gamma * rho / ?dv v"
    if "v \<in> set tmp" for v
  proof -
    have p: "0 < ?dv v" using dv [OF that] m by linarith
    have "gamma * rho / ?dv v \<le> gamma * rho / ?m"
      using dv [OF that] m c by (intro divide_left_mono) simp_all
    then have "gamma * rho / ?dv v < ovf" using ov by linarith
    then show ?thesis using fdiv_Fin [OF c p] by blast
  qed
  have "map (\<lambda>v. fdiv ovf (gamma * rho) (?dv v)) tmp = map Fin ?S"
    using q by (simp add: comp_def)
  then have "calc_S_A ovf gamma rho tmp = Inr (map Fin ?S)"
    by (simp only: calc_S_A_Inr [OF pos])
  moreover have "length ?S = length tmp" by simp
  moreover have "\<forall>q\<in>set ?S. 0 < q" using q by auto
  ultimately show ?thesis by blast
qed

lemma calc_T_A_cases:
  "calc_T_A ovf 0 rho adj = Inl ZeroDivisionError"
  "gamma \<noteq> 0 \<Longrightarrow> calc_T_A ovf gamma rho adj = Inr (map (fdiv ovf ((1 / gamma) * rho)) adj)"
  by (simp_all add: calc_T_A_def py_div_def)

lemma calc_T_A_lm_cases:
  "calc_T_A_lm ovf 0 rho pa adj = Inl ZeroDivisionError"
  "gamma \<noteq> 0 \<Longrightarrow> calc_T_A_lm ovf gamma rho pa adj = Inr (map (fdiv ovf (rho * pa / gamma)) adj)"
  by (simp_all add: calc_T_A_lm_def py_div_def)

lemma fdiv_zero_not_finite: "fdiv ovf c 0 \<noteq> Fin r"
  by (simp add: fdiv_def)

lemma fdiv_pos_cases:
  assumes "0 < c" "0 \<le> b"
  shows "fdiv ovf c b = PInf \<or> (\<exists>q. fdiv ovf c b = Fin q \<and> 0 < q)"
proof (cases "b = 0")
  case True
  then show ?thesis using assms(1) by (simp add: fdiv_def)
next
  case False
  then have b: "0 < b" using assms(2) by simp
  show ?thesis
  proof (cases "ovf \<le> c / b")
    case True
    then show ?thesis using False by (simp add: fdiv_def)
  next
    case False
    then have "c / b < ovf" by simp
    then show ?thesis using fdiv_Fin [OF assms(1) b] by blast
  qed
qed

lemma combine_T_finite_positive:
  assumes c: "0 < c" and tg: "0 < tg" and nn: "\<forall>v\<in>set adj. 0 \<le> v"
  shows "\<exists>T. combine_T (map (fdiv ovf c) adj) (Fin tg) = map Fin T \<and>
     (\<forall>t\<in>set T. 0 < t \<and> t \<le> tg)"
proof -
  let ?f = "\<lambda>v. case fdiv ovf c v of Fin q \<Rightarrow> (if q < tg then q else tg) | _ \<Rightarrow> tg"
  have e: "(if flt (fdiv ovf c v) (Fin tg) then fdiv ovf c v else Fin tg) = Fin (?f v)
      \<and> 0 < ?f v \<and> ?f v \<le> tg" if "v \<in> set adj" for v
    using fdiv_pos_cases [OF c, of v ovf] nn that tg by auto
  have "combine_T (map (fdiv ovf c) adj) (Fin tg) = map Fin (map ?f adj)"
    using e by (simp add: combine_T_def comp_def)
  moreover have "\<forall>t\<in>set (map ?f adj). 0 < t \<and> t \<le> tg" using e by auto
  ultimately show ?thesis by blast
qed

lemma combine_T_lm_finite_positive:
  assumes c: "0 < c" and tg: "0 < tg" and nn: "\<forall>a\<in>set adjs. \<forall>v\<in>set a. 0 \<le> v"
    and len: "\<forall>a\<in>set adjs. length a = n_img"
  shows "\<exists>T. combine_T_lm (map (map (fdiv ovf c)) adjs) (Fin tg) n_img = map Fin T \<and>
     (\<forall>t\<in>set T. 0 < t \<and> t \<le> tg)"
proof -
  let ?rows = "map (map (fdiv ovf c)) adjs"
  let ?R = "combine_T_lm ?rows (Fin tg) n_img"
  have ent: "\<exists>t. ?R ! j = Fin t \<and> 0 < t \<and> t \<le> tg" if j: "j < n_img" for j
  proof -
    let ?col = "map (\<lambda>r. r ! j) ?rows @ [Fin tg]"
    have good: "e = PInf \<or> (\<exists>q. e = Fin q \<and> 0 < q)" if "e \<in> set ?col" for e
    proof -
      from that consider "e = Fin tg" | a where "a \<in> set adjs" "e = map (fdiv ovf c) a ! j"
        by auto
      then show ?thesis
      proof cases
        case 1
        then show ?thesis using tg by simp
      next
        case 2
        then have "j < length a" "0 \<le> a ! j" using len nn j by auto
        then show ?thesis using 2 fdiv_pos_cases [OF c, of "a ! j" ovf] by simp
      qed
    qed
    then have n: "NaN \<notin> set ?col" by fastforce
    have e: "?R ! j = fmin_list ?col" using j by (rule combine_T_lm_nth)
    have "fmin_list ?col \<in> set ?col" using fmin_list_all [OF n] by simp
    then have g: "fmin_list ?col = PInf \<or> (\<exists>q. fmin_list ?col = Fin q \<and> 0 < q)"
      by (rule good)
    have "fle (fmin_list ?col) (Fin tg)" using fmin_list_all [OF n] by simp
    then show ?thesis unfolding e using g by auto
  qed
  let ?T = "map (\<lambda>j. case ?R ! j of Fin t \<Rightarrow> t | _ \<Rightarrow> tg) [0..<n_img]"
  have "?R = map Fin ?T"
  proof (rule nth_equalityI)
    show "length ?R = length (map Fin ?T)" by simp
  next
    fix j assume "j < length ?R"
    then have j: "j < n_img" by simp
    from ent [OF j] obtain t where "?R ! j = Fin t" by blast
    then show "?R ! j = map Fin ?T ! j" using j by simp
  qed
  moreover have "\<forall>t\<in>set ?T. 0 < t \<and> t \<le> tg"
  proof
    fix t assume "t \<in> set ?T"
    then obtain j where j: "j < n_img" and t: "t = (case ?R ! j of Fin t \<Rightarrow> t | _ \<Rightarrow> tg)"
      by auto
    from ent [OF j] t show "0 < t \<and> t \<le> tg" by auto
  qed
  ultimately show ?thesis by blast
qed

lemma nth_proj_nonneg: "i < length v \<Longrightarrow> proj_nonneg v ! i = max 0 (v ! i)"
  by (simp add: proj_nonneg_def max_def)

section \<open>Properties of the proximal operators and of the loops\<close>

text \<open>
  C1. In both loops the dual data update is the closed-form Poisson conjugate prox, entry
  by entry: with \<open>c\<close> the entry of the candidate \<open>y + S (A x + s)\<close> built from the
  projected image, the new dual entry is \<open>0.5 (c + 1 - sqrt ((c - 1)\<^sup>2 + 4 S d))\<close>, where
  \<open>d\<close> is the count entry (PDHG) or the multiplicity entry of the subset (LM-SPDHG). The
  update is a single expression, without iteration.
\<close>

theorem dual_data_update_is_poisson_prox:
  fixes E :: "'a pdhg_env_scheme" and L :: "'b lm_env_scheme"
  shows "(i < length (y_pdhg s) \<and> i < length (S_A E) \<and> i < length (d_sino E) \<and>
      i < length (contamination E) \<and>
      i < length (op_call (pet_lin_op E) (x_pdhg (pdhg_step E s))) \<longrightarrow>
      (let c = y_pdhg s ! i + S_A E ! i *
                 (op_call (pet_lin_op E) (x_pdhg (pdhg_step E s)) ! i + contamination E ! i)
       in y_pdhg (pdhg_step E s) ! i
            = 0.5 * (c + 1 - sqrt ((c - 1)\<^sup>2 + 4 * (S_A E ! i) * (d_sino E ! i))))) \<and>
   (k < num_subsets L \<and> k < length (ys t) \<and> i < length (ys t ! k) \<and>
      i < length (S_A_lm L ! k) \<and> i < length (subset_slice k (num_subsets L) (mu L)) \<and>
      i < length (subset_slice k (num_subsets L) (contamination_list L)) \<and>
      i < length (op_call (lm_pet_subset_linop_seq L ! k) (x_lmspdhg (lm_step L k t))) \<longrightarrow>
      (let c = ys t ! k ! i + S_A_lm L ! k ! i *
                 (op_call (lm_pet_subset_linop_seq L ! k) (x_lmspdhg (lm_step L k t)) ! i
                    + subset_slice k (num_subsets L) (contamination_list L) ! i)
       in ys (lm_step L k t) ! k ! i
            = 0.5 * (c + 1 - sqrt ((c - 1)\<^sup>2
                 + 4 * (S_A_lm L ! k ! i) * (subset_slice k (num_subsets L) (mu L) ! i)))))"
proof (intro conjI impI)
  assume h: "i < length (y_pdhg s) \<and> i < length (S_A E) \<and> i < length (d_sino E) \<and>
      i < length (contamination E) \<and>
      i < length (op_call (pet_lin_op E) (x_pdhg (pdhg_step E s)))"
  have "y_pdhg (pdhg_step E s) ! i =
     poisson_prox (S_A E ! i) (d_sino E ! i)
       (y_pdhg s ! i + S_A E ! i *
          (op_call (pet_lin_op E) (x_pdhg (pdhg_step E s)) ! i + contamination E ! i))"
    using h by (intro nth_y_pdhg_step) simp_all
  then show "let c = y_pdhg s ! i + S_A E ! i *
                 (op_call (pet_lin_op E) (x_pdhg (pdhg_step E s)) ! i + contamination E ! i)
       in y_pdhg (pdhg_step E s) ! i
            = 0.5 * (c + 1 - sqrt ((c - 1)\<^sup>2 + 4 * (S_A E ! i) * (d_sino E ! i)))"
    by (simp only: poisson_prox_def Let_def)
next
  assume h: "k < num_subsets L \<and> k < length (ys t) \<and> i < length (ys t ! k) \<and>
      i < length (S_A_lm L ! k) \<and> i < length (subset_slice k (num_subsets L) (mu L)) \<and>
      i < length (subset_slice k (num_subsets L) (contamination_list L)) \<and>
      i < length (op_call (lm_pet_subset_linop_seq L ! k) (x_lmspdhg (lm_step L k t)))"
  have "ys (lm_step L k t) ! k ! i =
     poisson_prox (S_A_lm L ! k ! i) (subset_slice k (num_subsets L) (mu L) ! i)
       (ys t ! k ! i + S_A_lm L ! k ! i *
          (op_call (lm_pet_subset_linop_seq L ! k) (x_lmspdhg (lm_step L k t)) ! i
             + subset_slice k (num_subsets L) (contamination_list L) ! i))"
    using h by (intro nth_ys_lm_step) simp_all
  then show "let c = ys t ! k ! i + S_A_lm L ! k ! i *
                 (op_call (lm_pet_subset_linop_seq L ! k) (x_lmspdhg (lm_step L k t)) ! i
                    + subset_slice k (num_subsets L) (contamination_list L) ! i)
       in ys (lm_step L k t) ! k ! i
            = 0.5 * (c + 1 - sqrt ((c - 1)\<^sup>2
                 + 4 * (S_A_lm L ! k ! i) * (subset_slice k (num_subsets L) (mu L) ! i)))"
    by (simp only: poisson_prox_def Let_def)
qed

theorem dual_data_update_is_poisson_prox_witness:
  "(let c = y_pdhg toy_pdhg_state ! 0 + S_A toy_pdhg_env ! 0 *
              (op_call (pet_lin_op toy_pdhg_env)
                 (x_pdhg (pdhg_step toy_pdhg_env toy_pdhg_state)) ! 0
               + contamination toy_pdhg_env ! 0)
    in y_pdhg (pdhg_step toy_pdhg_env toy_pdhg_state) ! 0
         = 0.5 * (c + 1 - sqrt ((c - 1)\<^sup>2
              + 4 * (S_A toy_pdhg_env ! 0) * (d_sino toy_pdhg_env ! 0)))) \<and>
   (let c = ys toy_lm_state ! 1 ! 0 + S_A_lm toy_lm_env ! 1 ! 0 *
              (op_call (lm_pet_subset_linop_seq toy_lm_env ! 1)
                 (x_lmspdhg (lm_step toy_lm_env 1 toy_lm_state)) ! 0
               + subset_slice 1 (num_subsets toy_lm_env) (contamination_list toy_lm_env) ! 0)
    in ys (lm_step toy_lm_env 1 toy_lm_state) ! 1 ! 0
         = 0.5 * (c + 1 - sqrt ((c - 1)\<^sup>2
              + 4 * (S_A_lm toy_lm_env ! 1 ! 0)
                  * (subset_slice 1 (num_subsets toy_lm_env) (mu toy_lm_env) ! 0))))"
proof -
  have h1: "0 < length (y_pdhg toy_pdhg_state) \<and> 0 < length (S_A toy_pdhg_env) \<and>
      0 < length (d_sino toy_pdhg_env) \<and> 0 < length (contamination toy_pdhg_env) \<and>
      0 < length (op_call (pet_lin_op toy_pdhg_env)
                    (x_pdhg (pdhg_step toy_pdhg_env toy_pdhg_state)))"
    by (simp add: toy_pdhg_state_def toy_pdhg_env_def toy_lin_op_def)
  have h2: "1 < num_subsets toy_lm_env \<and> 1 < length (ys toy_lm_state) \<and>
      0 < length (ys toy_lm_state ! 1) \<and> 0 < length (S_A_lm toy_lm_env ! 1) \<and>
      0 < length (subset_slice 1 (num_subsets toy_lm_env) (mu toy_lm_env)) \<and>
      0 < length (subset_slice 1 (num_subsets toy_lm_env) (contamination_list toy_lm_env)) \<and>
      0 < length (op_call (lm_pet_subset_linop_seq toy_lm_env ! 1)
                    (x_lmspdhg (lm_step toy_lm_env 1 toy_lm_state)))"
    by (simp add: toy_lm_state_def toy_lm_env_def toy_lin_op_def subset_slice_def)
  note t = dual_data_update_is_poisson_prox
    [where i = 0 and k = 1 and s = toy_pdhg_state and E = toy_pdhg_env
       and t = toy_lm_state and L = toy_lm_env]
  show ?thesis
    by (rule conjI [OF mp [OF conjunct1 [OF t] h1] mp [OF conjunct2 [OF t] h2]])
qed

text \<open>
  C2. The combined primal step is the pointwise minimum: in PDHG of \<open>T_A\<close> and \<open>T_G\<close>,
  in LM-SPDHG of all per-subset rows and \<open>T_G\<close>; an infinite entry of a contributing
  step (a voxel seen by no measurement) yields \<open>T_G\<close>. At every voxel the combined step
  is at most every contributing step. A \<^verbatim>\<open>nan\<close> entry is not ordered: the
  selection of PDHG returns \<open>T_G\<close> there and the minimum of LM-SPDHG returns \<^verbatim>\<open>nan\<close>.
  The step \<open>T\<close> in the environment of each loop is this combined step.
\<close>

theorem combined_primal_step_is_pointwise_min:
  "(j < length T_A \<longrightarrow>
      combine_T T_A T_G ! j = (if flt (T_A ! j) T_G then T_A ! j else T_G) \<and>
      (T_A ! j \<noteq> NaN \<and> T_G \<noteq> NaN \<longrightarrow>
         combine_T T_A T_G ! j = fmin2 (T_A ! j) T_G \<and>
         fle (combine_T T_A T_G ! j) (T_A ! j) \<and> fle (combine_T T_A T_G ! j) T_G)) \<and>
   (j < n_img \<and> (\<forall>r\<in>set rows. length r = n_img) \<longrightarrow>
      combine_T_lm rows T_G n_img ! j = fmin_list (map (\<lambda>r. r ! j) rows @ [T_G]) \<and>
      (T_G \<noteq> NaN \<and> (\<forall>r\<in>set rows. r ! j \<noteq> NaN) \<longrightarrow>
         (\<forall>i<length rows. fle (combine_T_lm rows T_G n_img ! j) (rows ! i ! j)) \<and>
         fle (combine_T_lm rows T_G n_img ! j) T_G \<and>
         (combine_T_lm rows T_G n_img ! j = T_G \<or>
          (\<exists>i<length rows. combine_T_lm rows T_G n_img ! j = rows ! i ! j)))) \<and>
   (pdhg_step_sizes ovf gamma rho tg lin n_img n_meas = Inr st \<and>
    pdhg_env_of G b sg lin contam d st = Some E \<longrightarrow>
      (\<exists>TA. calc_T_A ovf gamma rho (op_adjoint lin (replicate n_meas 1)) = Inr TA \<and>
         map Fin (T_pdhg E) = combine_T TA (Fin tg) \<and> length (T_pdhg E) = length TA \<and>
         (\<forall>i<length TA. T_pdhg E ! i \<le> tg \<and>
            (TA ! i \<noteq> NaN \<longrightarrow> fle (Fin (T_pdhg E ! i)) (TA ! i))))) \<and>
   (lm_step_sizes ovf gamma rho pa tg seq mu_list n_sub n_img = Inr lst \<and>
    lm_env_of G b sg seq lcontam mu_list n_sub pa pg lst = Some L \<longrightarrow>
      (\<exists>T_rows.
         map_err (\<lambda>k. calc_T_A_lm ovf gamma rho pa
                    (op_adjoint (seq ! k) (map (\<lambda>m. 1 / m) (subset_slice k n_sub mu_list))))
           [0..<n_sub] = Inr T_rows \<and>
         length T_rows = n_sub \<and>
         map Fin (T_lm L) = combine_T_lm T_rows (Fin tg) n_img \<and> length (T_lm L) = n_img \<and>
         (\<forall>i<n_img. T_lm L ! i \<le> tg \<and>
            (\<forall>k<n_sub. fle (Fin (T_lm L ! i)) (T_rows ! k ! i))))) \<and>
   (c \<noteq> 0 \<longrightarrow> fdiv ovf c v \<noteq> NaN)"
proof (intro conjI impI)
  assume "c \<noteq> 0"
  then show "fdiv ovf c v \<noteq> NaN" by (simp add: fdiv_def)
next
  assume "j < length T_A"
  then show "combine_T T_A T_G ! j = (if flt (T_A ! j) T_G then T_A ! j else T_G)"
    by (rule combine_T_nth)
next
  assume j: "j < length T_A" and "T_A ! j \<noteq> NaN \<and> T_G \<noteq> NaN"
  then have n: "T_A ! j \<noteq> NaN" "T_G \<noteq> NaN" by simp_all
  show "combine_T T_A T_G ! j = fmin2 (T_A ! j) T_G"
    using j n by (rule combine_T_order(1))
  show "fle (combine_T T_A T_G ! j) (T_A ! j)" using j n by (rule combine_T_order(2))
  show "fle (combine_T T_A T_G ! j) T_G" using j n by (rule combine_T_order(3))
next
  assume "j < n_img \<and> (\<forall>r\<in>set rows. length r = n_img)"
  then have "j < n_img" by simp
  then show "combine_T_lm rows T_G n_img ! j = fmin_list (map (\<lambda>r. r ! j) rows @ [T_G])"
    by (rule combine_T_lm_nth)
next
  assume "j < n_img \<and> (\<forall>r\<in>set rows. length r = n_img)"
    and "T_G \<noteq> NaN \<and> (\<forall>r\<in>set rows. r ! j \<noteq> NaN)"
  then have j: "j < n_img" and n: "T_G \<noteq> NaN" "\<forall>r\<in>set rows. r ! j \<noteq> NaN"
    by simp_all
  show "\<forall>i<length rows. fle (combine_T_lm rows T_G n_img ! j) (rows ! i ! j)"
    using j n by (rule combine_T_lm_order(1))
  show "fle (combine_T_lm rows T_G n_img ! j) T_G"
    using j n by (rule combine_T_lm_order(2))
  show "combine_T_lm rows T_G n_img ! j = T_G \<or>
          (\<exists>i<length rows. combine_T_lm rows T_G n_img ! j = rows ! i ! j)"
    using j n by (rule combine_T_lm_order(3))
next
  assume h: "pdhg_step_sizes ovf gamma rho tg lin n_img n_meas = Inr st \<and>
    pdhg_env_of G b sg lin contam d st = Some E"
  then obtain S TA where ta: "calc_T_A ovf gamma rho (op_adjoint lin (replicate n_meas 1)) = Inr TA"
    and st: "st = (S, combine_T TA (Fin tg))"
    using pdhg_step_sizes_Inr [of ovf gamma rho tg lin n_img n_meas st] by blast
  have e: "map Fin (T_pdhg E) = combine_T TA (Fin tg)"
    using pdhg_env_of_Some(2) [of G b sg lin contam d st E] h st by simp
  have l: "length (T_pdhg E) = length TA" using arg_cong [OF e, of length] by simp
  have "\<forall>i<length TA. T_pdhg E ! i \<le> tg \<and>
            (TA ! i \<noteq> NaN \<longrightarrow> fle (Fin (T_pdhg E ! i)) (TA ! i))"
    using finite_combine_T [OF e] by blast
  then show "\<exists>TA. calc_T_A ovf gamma rho (op_adjoint lin (replicate n_meas 1)) = Inr TA \<and>
         map Fin (T_pdhg E) = combine_T TA (Fin tg) \<and> length (T_pdhg E) = length TA \<and>
         (\<forall>i<length TA. T_pdhg E ! i \<le> tg \<and>
            (TA ! i \<noteq> NaN \<longrightarrow> fle (Fin (T_pdhg E ! i)) (TA ! i)))"
    using ta e l by blast
next
  assume h: "lm_step_sizes ovf gamma rho pa tg seq mu_list n_sub n_img = Inr lst \<and>
    lm_env_of G b sg seq lcontam mu_list n_sub pa pg lst = Some L"
  let ?f = "\<lambda>k. calc_T_A_lm ovf gamma rho pa
                    (op_adjoint (seq ! k) (map (\<lambda>m. 1 / m) (subset_slice k n_sub mu_list)))"
  from h obtain SA T_rows where r: "map_err ?f [0..<n_sub] = Inr T_rows"
    and st: "lst = (SA, combine_T_lm T_rows (Fin tg) n_img)"
    using lm_step_sizes_Inr [of ovf gamma rho pa tg seq mu_list n_sub n_img lst] by blast
  have lr: "length T_rows = n_sub" using map_err_Inr [OF r] by simp
  have e: "map Fin (T_lm L) = combine_T_lm T_rows (Fin tg) n_img"
    using lm_env_of_Some(2) [of G b sg seq lcontam mu_list n_sub pa pg lst L] h st by simp
  have l: "length (T_lm L) = n_img" using arg_cong [OF e, of length] by simp
  have "\<forall>i<n_img. T_lm L ! i \<le> tg \<and> (\<forall>k<n_sub. fle (Fin (T_lm L ! i)) (T_rows ! k ! i))"
    using finite_combine_T_lm [OF e] lr by blast
  then show "\<exists>T_rows. map_err ?f [0..<n_sub] = Inr T_rows \<and>
         length T_rows = n_sub \<and>
         map Fin (T_lm L) = combine_T_lm T_rows (Fin tg) n_img \<and> length (T_lm L) = n_img \<and>
         (\<forall>i<n_img. T_lm L ! i \<le> tg \<and>
            (\<forall>k<n_sub. fle (Fin (T_lm L ! i)) (T_rows ! k ! i)))"
    using r lr e l by blast
qed

theorem combined_primal_step_is_pointwise_min_witness:
  "combine_T [Fin 3, PInf, Fin 1] (Fin 2) ! 1 = Fin 2 \<and>
   fle (combine_T [Fin 3, PInf, Fin 1] (Fin 2) ! 1) PInf \<and>
   combine_T [Fin 3, PInf, Fin 1] (Fin 2) ! 2 = Fin 1 \<and>
   combine_T_lm [[Fin 3, PInf], [Fin 5, Fin 4]] (Fin 2) 2 ! 1 = Fin 2 \<and>
   fle (combine_T_lm [[Fin 3, PInf], [Fin 5, Fin 4]] (Fin 2) 2 ! 1) PInf \<and>
   (\<exists>TA. calc_T_A float32_overflow 10 (9999 / 10000)
             (op_adjoint toy_blind_op (replicate 2 1)) = Inr TA \<and>
         map Fin (T_pdhg toy_blind_env) = combine_T TA (Fin (1 / 10)) \<and>
         length (T_pdhg toy_blind_env) = length TA \<and>
         (\<forall>i<length TA. T_pdhg toy_blind_env ! i \<le> 1 / 10 \<and>
            (TA ! i \<noteq> NaN \<longrightarrow> fle (Fin (T_pdhg toy_blind_env ! i)) (TA ! i)))) \<and>
   (\<exists>T_rows.
         map_err (\<lambda>k. calc_T_A_lm float32_overflow 10 (9999 / 10000) (1 / 4)
                    (op_adjoint ([toy_blind_op, toy_lin_op] ! k)
                       (map (\<lambda>m. 1 / m) (subset_slice k 2 [1, 2, 1, 2]))))
           [0..<2] = Inr T_rows \<and>
         length T_rows = 2 \<and>
         map Fin (T_lm toy_blind_lm_env) = combine_T_lm T_rows (Fin (1 / 10)) 2 \<and>
         length (T_lm toy_blind_lm_env) = 2 \<and>
         (\<forall>i<2. T_lm toy_blind_lm_env ! i \<le> 1 / 10 \<and>
            (\<forall>k<2. fle (Fin (T_lm toy_blind_lm_env ! i)) (T_rows ! k ! i)))) \<and>
   fdiv float32_overflow (9999 / 100000) 0 \<noteq> NaN"
proof -
  note a = combined_primal_step_is_pointwise_min
    [where j = 1 and T_A = "[Fin 3, PInf, Fin 1]" and T_G = "Fin 2" and n_img = 2
       and rows = "[[Fin 3, PInf], [Fin 5, Fin 4]]"]
  note a' = combined_primal_step_is_pointwise_min
    [where j = 2 and T_A = "[Fin 3, PInf, Fin 1]" and T_G = "Fin 2"]
  have h1: "1 < length [Fin 3, PInf, Fin 1]" and h1': "2 < length [Fin 3, PInf, Fin 1]"
    and h2: "(1::nat) < 2 \<and> (\<forall>r\<in>set [[Fin 3, PInf], [Fin 5, Fin 4]]. length r = 2)"
    by simp_all
  have n1: "[Fin 3, PInf, Fin 1] ! 1 \<noteq> NaN \<and> Fin 2 \<noteq> NaN" by simp
  have n2: "Fin 2 \<noteq> NaN \<and> (\<forall>r\<in>set [[Fin 3, PInf], [Fin 5, Fin 4]]. r ! 1 \<noteq> NaN)" by simp
  note c1 = mp [OF conjunct1 [OF a] h1]
  note c1' = mp [OF conjunct1 [OF a'] h1']
  note c2 = mp [OF conjunct1 [OF conjunct2 [OF a]] h2]
  have r1: "combine_T [Fin 3, PInf, Fin 1] (Fin 2) ! 1 = Fin 2"
    using conjunct1 [OF c1] by simp
  have r2: "fle (combine_T [Fin 3, PInf, Fin 1] (Fin 2) ! 1) PInf"
    using mp [OF conjunct2 [OF c1] n1] by (simp add: fmin2_def)
  have r3: "combine_T [Fin 3, PInf, Fin 1] (Fin 2) ! 2 = Fin 1"
    using conjunct1 [OF c1'] by simp
  have r4: "combine_T_lm [[Fin 3, PInf], [Fin 5, Fin 4]] (Fin 2) 2 ! 1 = Fin 2"
    using conjunct1 [OF c2] by (simp add: fmin2_def)
  have r5: "fle (combine_T_lm [[Fin 3, PInf], [Fin 5, Fin 4]] (Fin 2) 2 ! 1) PInf"
    using conjunct1 [OF mp [OF conjunct2 [OF c2] n2]] by auto
  note b = combined_primal_step_is_pointwise_min
    [where ovf = float32_overflow and gamma = 10 and rho = "9999 / 10000" and tg = "1 / 10"
       and lin = toy_blind_op and n_img = 2 and n_meas = 2 and st = toy_blind_steps
       and G = toy_op_G and b = 10 and sg = 1 and contam = "[1, 1]" and d = "[2, 0]"
       and E = toy_blind_env and pa = "1 / 4" and seq = "[toy_blind_op, toy_lin_op]"
       and mu_list = "[1, 2, 1, 2]" and n_sub = 2 and lst = toy_lm_steps
       and lcontam = "[1, 1, 1, 1]" and pg = "1 / 2" and L = toy_blind_lm_env]
  have h3: "pdhg_step_sizes float32_overflow 10 (9999 / 10000) (1 / 10) toy_blind_op 2 2
      = Inr toy_blind_steps \<and>
    pdhg_env_of toy_op_G 10 1 toy_blind_op [1, 1] [2, 0] toy_blind_steps = Some toy_blind_env"
    using toy_pdhg_step_sizes toy_pdhg_env_of by simp
  have h4: "lm_step_sizes float32_overflow 10 (9999 / 10000) (1 / 4) (1 / 10)
      [toy_blind_op, toy_lin_op] [1, 2, 1, 2] 2 2 = Inr toy_lm_steps \<and>
    lm_env_of toy_op_G 10 1 [toy_blind_op, toy_lin_op] [1, 1, 1, 1] [1, 2, 1, 2] 2 (1 / 4) (1 / 2)
      toy_lm_steps = Some toy_blind_lm_env"
    using toy_lm_step_sizes toy_lm_env_of by simp
  have h5: "(9999 / 100000 :: real) \<noteq> 0" by simp
  note b4 = conjunct2 [OF conjunct2 [OF conjunct2 [OF b [where c = "9999 / 100000" and v = 0]]]]
  note r6 = mp [OF conjunct1 [OF conjunct2 [OF conjunct2 [OF b]]] h3]
  note r7 = mp [OF conjunct1 [OF conjunct2 [OF conjunct2 [OF conjunct2 [OF b]]]] h4]
  note r8 = mp [OF conjunct2 [OF b4] h5]
  show ?thesis by (intro conjI r1 r2 r3 r4 r5 r6 r7 r8)
qed








text \<open>
  C6. The claim that the prox with step \<open>S = 0\<close> returns every \<open>y\<close> unchanged fails for
  \<open>y > 1\<close>: at \<open>y = 2\<close> the result is \<open>1\<close>.
\<close>

theorem poisson_prox_zero_step_identity_counterexample:
  "poisson_prox 0 3 2 = 1 \<and> poisson_prox 0 3 2 \<noteq> 2"
  by (simp add: poisson_prox_def)

text \<open>
  C6, as the code has it: with step \<open>S = 0\<close> the prox is \<open>min y 1\<close>, for every count; it
  returns \<open>y\<close> itself exactly on \<open>y \<le> 1\<close>.
\<close>

theorem poisson_prox_zero_step:
  "poisson_prox 0 d y = min y 1"
  by (simp add: poisson_prox_def min_def)

text \<open>
  C7. The divisor of the TV conjugate prox is at least \<open>1\<close> at every voxel, so it is never
  zero. At a voxel whose group norm is at most \<open>1\<close> (zero included) the divisor is \<open>1\<close>
  and every component of the group is unchanged. For \<open>beta > 0\<close>, a group of the
  candidate \<open>w + S_G grad x\<close> of norm at most \<open>beta\<close> is returned unchanged by the whole
  update. Both loops use this update.
\<close>

theorem tv_prox_identity_inside_unit_ball:
  fixes E :: "'a pdhg_env_scheme" and L :: "'b lm_env_scheme"
  shows "(\<forall>v\<in>set (clamp_denom (vector_norm_axis0 u)). 1 \<le> v) \<and>
   ((\<forall>r\<in>set u. length r = n) \<and> ci < length u \<and> j < n \<and> vector_norm_axis0 u ! j \<le> 1 \<longrightarrow>
      clamp_denom (vector_norm_axis0 u) ! j = 1 \<and> tv_prox u ! ci ! j = u ! ci ! j) \<and>
   (0 < b \<and> (\<forall>r\<in>set (w_candidate sg w gx). length r = n) \<and>
      ci < length (w_candidate sg w gx) \<and> j < n \<and>
      vector_norm_axis0 (w_candidate sg w gx) ! j \<le> b \<longrightarrow>
      w_update b sg w gx ! ci ! j = w_candidate sg w gx ! ci ! j) \<and>
   w_pdhg (pdhg_step E s)
     = w_update (beta E) (S_G E) (w_pdhg s) (grad_call (op_G E) (x_pdhg (pdhg_step E s))) \<and>
   (\<not> k < num_subsets L \<longrightarrow>
      w_lm (lm_step L k t)
        = w_update (beta L) (S_G L) (w_lm t) (grad_call (op_G L) (x_lmspdhg (lm_step L k t))))"
proof (intro conjI impI)
  show "\<forall>v\<in>set (clamp_denom (vector_norm_axis0 u)). 1 \<le> v"
    by (rule clamp_denom_ge_one)
next
  assume h: "(\<forall>r\<in>set u. length r = n) \<and> ci < length u \<and> j < n \<and> vector_norm_axis0 u ! j \<le> 1"
  then have h1: "\<forall>r\<in>set u. length r = n" and h2: "ci < length u" and h3: "j < n"
    and h4: "vector_norm_axis0 u ! j \<le> 1" by simp_all
  show "clamp_denom (vector_norm_axis0 u) ! j = 1"
    using h1 h2 h3 h4 by (rule tv_prox_inside(1))
  show "tv_prox u ! ci ! j = u ! ci ! j"
    using h1 h2 h3 h4 by (rule tv_prox_inside(2))
next
  assume h: "0 < b \<and> (\<forall>r\<in>set (w_candidate sg w gx). length r = n) \<and>
      ci < length (w_candidate sg w gx) \<and> j < n \<and>
      vector_norm_axis0 (w_candidate sg w gx) ! j \<le> b"
  then have h0: "0 < b" and h1: "\<forall>r\<in>set (w_candidate sg w gx). length r = n"
    and h2: "ci < length (w_candidate sg w gx)" and h3: "j < n"
    and h4: "vector_norm_axis0 (w_candidate sg w gx) ! j \<le> b" by simp_all
  show "w_update b sg w gx ! ci ! j = w_candidate sg w gx ! ci ! j"
    using h0 h1 h2 h3 h4 by (rule w_update_inside)
next
  show "w_pdhg (pdhg_step E s)
     = w_update (beta E) (S_G E) (w_pdhg s) (grad_call (op_G E) (x_pdhg (pdhg_step E s)))"
    by (rule w_pdhg_step)
next
  assume "\<not> k < num_subsets L"
  then show "w_lm (lm_step L k t)
        = w_update (beta L) (S_G L) (w_lm t) (grad_call (op_G L) (x_lmspdhg (lm_step L k t)))"
    by (rule w_lm_step_grad)
qed

theorem tv_prox_identity_inside_unit_ball_witness:
  "vector_norm_axis0 [[3 / 10, 0], [4 / 10, 0]] ! 1 = 0 \<and>
   clamp_denom (vector_norm_axis0 [[3 / 10, 0], [4 / 10, 0]]) ! 1 = 1 \<and>
   tv_prox [[3 / 10, 0], [4 / 10, 0]] ! 0 ! 1 = [[3 / 10, 0], [4 / 10, 0]] ! 0 ! 1 \<and>
   w_update 10 1 [[3, 0], [4, 0]] [[0, 0], [0, 0]] ! 1 ! 0 = 4 \<and>
   w_lm (lm_step toy_lm_env 3 toy_lm_state)
     = w_update (beta toy_lm_env) (S_G toy_lm_env) (w_lm toy_lm_state)
         (grad_call (op_G toy_lm_env) (x_lmspdhg (lm_step toy_lm_env 3 toy_lm_state)))"
proof -
  let ?u = "[[3 / 10, 0], [4 / 10, 0 :: real]]"
  have n0: "vector_norm_axis0 ?u ! 1 = 0"
    by (simp add: vector_norm_axis0_def)
  have h1: "(\<forall>r\<in>set ?u. length r = 2) \<and> 0 < length ?u \<and> (1::nat) < 2 \<and>
      vector_norm_axis0 ?u ! 1 \<le> 1"
    using n0 by simp
  have c: "w_candidate 1 [[3, 0], [4, 0]] [[0, 0], [0, 0]] = [[3, 0], [4, 0]]"
    by (simp add: w_candidate_def gadd_def gscale_def vadd_def)
  have "sqrt (3\<^sup>2 + 4\<^sup>2) \<le> (10::real)"
    by (rule real_le_lsqrt) simp_all
  then have nb: "vector_norm_axis0 [[3, 0], [4, 0]] ! 0 \<le> 10"
    by (simp add: vector_norm_axis0_def)
  have h2: "(0::real) < 10 \<and>
      (\<forall>r\<in>set (w_candidate 1 [[3, 0], [4, 0]] [[0, 0], [0, 0]]). length r = 2) \<and>
      1 < length (w_candidate 1 [[3, 0], [4, 0]] [[0, 0], [0, 0]]) \<and> (0::nat) < 2 \<and>
      vector_norm_axis0 (w_candidate 1 [[3, 0], [4, 0]] [[0, 0], [0, 0]]) ! 0 \<le> 10"
    unfolding c using nb by simp
  have h3: "\<not> 3 < num_subsets toy_lm_env" by (simp add: toy_lm_env_def)
  note a = tv_prox_identity_inside_unit_ball
    [where u = ?u and n = 2 and ci = 0 and j = 1 and L = toy_lm_env and k = 3
       and t = toy_lm_state]
  note b = tv_prox_identity_inside_unit_ball
    [where b = 10 and sg = 1 and w = "[[3, 0], [4, 0]]" and gx = "[[0, 0], [0, 0]]"
       and n = 2 and ci = 1 and j = 0]
  have r1: "clamp_denom (vector_norm_axis0 ?u) ! 1 = 1 \<and> tv_prox ?u ! 0 ! 1 = ?u ! 0 ! 1"
    by (rule mp [OF conjunct1 [OF conjunct2 [OF a]] h1])
  have r2: "w_update 10 1 [[3, 0], [4, 0]] [[0, 0], [0, 0]] ! 1 ! 0
      = w_candidate 1 [[3, 0], [4, 0]] [[0, 0], [0, 0]] ! 1 ! 0"
    by (rule mp [OF conjunct1 [OF conjunct2 [OF conjunct2 [OF b]]] h2])
  have r3: "w_lm (lm_step toy_lm_env 3 toy_lm_state)
     = w_update (beta toy_lm_env) (S_G toy_lm_env) (w_lm toy_lm_state)
         (grad_call (op_G toy_lm_env) (x_lmspdhg (lm_step toy_lm_env 3 toy_lm_state)))"
    by (rule mp [OF conjunct2 [OF conjunct2 [OF conjunct2 [OF conjunct2 [OF a]]]] h3])
  have r2': "w_update 10 1 [[3, 0], [4, 0]] [[0, 0], [0, 0]] ! 1 ! 0 = 4"
    using r2 unfolding c by simp
  show ?thesis using n0 r1 r2' r3 by (intro conjI) simp_all
qed

text \<open>
  C9. For operators whose outputs have the shapes of the run and whose adjoints are
  additive, \<open>z = A\<^sup>T y + grad\<^sup>T w\<close> holds after the initialisation, is preserved
  by every pass of the PDHG loop body, and so holds after any number of iterations.
\<close>

theorem pdhg_z_is_adjoint_of_duals:
  fixes E :: "'a pdhg_env_scheme"
  assumes "pdhg_shapes E m n" and "adjoints_additive E m"
  shows "z_relation E (pdhg_init E x_mlem) \<and>
    (pdhg_state_shapes E m n s \<and> z_relation E s \<longrightarrow> z_relation E (pdhg_step E s)) \<and>
    (length x_mlem = n \<longrightarrow>
       z_pdhg (pdhg_loop E k (pdhg_init E x_mlem))
         = vadd (op_adjoint (pet_lin_op E) (y_pdhg (pdhg_loop E k (pdhg_init E x_mlem))))
                (grad_adjoint (op_G E) (w_pdhg (pdhg_loop E k (pdhg_init E x_mlem)))))"
proof (intro conjI impI)
  show "z_relation E (pdhg_init E x_mlem)" by (rule pdhg_init_z_relation)
next
  assume "pdhg_state_shapes E m n s \<and> z_relation E s"
  then have "pdhg_state_shapes E m n s" and "z_relation E s" by simp_all
  with assms show "z_relation E (pdhg_step E s)" by (rule pdhg_step_z_relation)
next
  assume "length x_mlem = n"
  with assms(1) have "pdhg_state_shapes E m n (pdhg_init E x_mlem)"
    by (rule pdhg_init_shapes)
  then have "z_relation E (pdhg_loop E k (pdhg_init E x_mlem))"
    using pdhg_loop_z_relation [OF assms] pdhg_init_z_relation by blast
  then show "z_pdhg (pdhg_loop E k (pdhg_init E x_mlem))
         = vadd (op_adjoint (pet_lin_op E) (y_pdhg (pdhg_loop E k (pdhg_init E x_mlem))))
                (grad_adjoint (op_G E) (w_pdhg (pdhg_loop E k (pdhg_init E x_mlem))))"
    by (simp only: z_relation_def)
qed

theorem pdhg_z_is_adjoint_of_duals_witness:
  "z_pdhg (pdhg_loop toy_pdhg_env 2 (pdhg_init toy_pdhg_env [1, 1]))
     = vadd (op_adjoint (pet_lin_op toy_pdhg_env)
               (y_pdhg (pdhg_loop toy_pdhg_env 2 (pdhg_init toy_pdhg_env [1, 1]))))
            (grad_adjoint (op_G toy_pdhg_env)
               (w_pdhg (pdhg_loop toy_pdhg_env 2 (pdhg_init toy_pdhg_env [1, 1]))))"
proof -
  have l: "length [1, 1 :: real] = 2" by simp
  note t = pdhg_z_is_adjoint_of_duals [OF toy_pdhg_shapes toy_adjoints_additive,
    where x_mlem = "[1, 1]" and k = 2]
  show ?thesis by (rule mp [OF conjunct2 [OF conjunct2 [OF t]] l])
qed

text \<open>
  C10. For a non-negative step and a non-negative count the prox is at most \<open>1\<close>; so
  after the dual data update every entry of \<open>y\<close> (PDHG) and of the updated \<open>ys[k]\<close>
  (LM-SPDHG) is at most \<open>1\<close>.
\<close>

theorem poisson_prox_at_most_one:
  fixes E :: "'a pdhg_env_scheme" and L :: "'b lm_env_scheme"
  shows "(0 \<le> S \<and> 0 \<le> d \<longrightarrow> poisson_prox S d y \<le> 1) \<and>
   ((\<forall>v\<in>set (S_A E). 0 \<le> v) \<and> (\<forall>v\<in>set (d_sino E). 0 \<le> v) \<longrightarrow>
      (\<forall>v\<in>set (y_pdhg (pdhg_step E s)). v \<le> 1)) \<and>
   (k < num_subsets L \<and> k < length (ys t) \<and> (\<forall>v\<in>set (S_A_lm L ! k). 0 \<le> v) \<and>
      (\<forall>v\<in>set (mu L). 0 \<le> v) \<longrightarrow>
      (\<forall>v\<in>set (ys (lm_step L k t) ! k). v \<le> 1))"
proof (intro conjI impI)
  assume "0 \<le> S \<and> 0 \<le> d"
  then show "poisson_prox S d y \<le> 1" by (simp add: poisson_prox_le_one)
next
  assume h: "(\<forall>v\<in>set (S_A E). 0 \<le> v) \<and> (\<forall>v\<in>set (d_sino E). 0 \<le> v)"
  show "\<forall>v\<in>set (y_pdhg (pdhg_step E s)). v \<le> 1"
    by (subst y_pdhg_step, rule prox_dual_data_le_one) (use h in simp_all)
next
  assume h: "k < num_subsets L \<and> k < length (ys t) \<and> (\<forall>v\<in>set (S_A_lm L ! k). 0 \<le> v) \<and>
      (\<forall>v\<in>set (mu L). 0 \<le> v)"
  from h have k1: "k < num_subsets L" and k2: "k < length (ys t)"
    and sa: "\<forall>v\<in>set (S_A_lm L ! k). 0 \<le> v" and mu0: "\<forall>v\<in>set (mu L). 0 \<le> v"
    by simp_all
  have m: "\<forall>v\<in>set (subset_slice k (num_subsets L) (mu L)). 0 \<le> v"
  proof
    fix v assume "v \<in> set (subset_slice k (num_subsets L) (mu L))"
    then have "v \<in> set (mu L)" by (rule subsetD [OF set_subset_slice])
    then show "0 \<le> v" using mu0 by simp
  qed
  have e: "ys (lm_step L k t) ! k =
     prox_dual_data (S_A_lm L ! k) (subset_slice k (num_subsets L) (mu L))
        (vadd (ys t ! k)
           (vmul (S_A_lm L ! k)
              (vadd (op_call (lm_pet_subset_linop_seq L ! k) (x_lmspdhg (lm_step L k t)))
                    (subset_slice k (num_subsets L) (contamination_list L)))))"
    using k1 k2 by (rule ys_lm_step_data_nth)
  show "\<forall>v\<in>set (ys (lm_step L k t) ! k). v \<le> 1"
    by (subst e, rule prox_dual_data_le_one) (rule sa, rule m)
qed

theorem poisson_prox_at_most_one_witness:
  "poisson_prox (1 / 2) 2 5 \<le> 1 \<and>
   list_all (\<lambda>v. v \<le> 1) (y_pdhg (pdhg_step toy_pdhg_env toy_pdhg_state)) \<and>
   list_all (\<lambda>v. v \<le> 1) (ys (lm_step toy_lm_env 1 toy_lm_state) ! 1)"
proof -
  have h0: "(0::real) \<le> 1 / 2 \<and> (0::real) \<le> 2" by simp
  have h1: "(\<forall>v\<in>set (S_A toy_pdhg_env). 0 \<le> v) \<and> (\<forall>v\<in>set (d_sino toy_pdhg_env). 0 \<le> v)"
    by (simp add: toy_pdhg_env_def)
  have h2: "1 < num_subsets toy_lm_env \<and> 1 < length (ys toy_lm_state) \<and>
      (\<forall>v\<in>set (S_A_lm toy_lm_env ! 1). 0 \<le> v) \<and> (\<forall>v\<in>set (mu toy_lm_env). 0 \<le> v)"
    by (simp add: toy_lm_env_def toy_lm_state_def)
  note t = poisson_prox_at_most_one
    [where S = "1 / 2" and d = 2 and y = 5 and E = toy_pdhg_env and s = toy_pdhg_state
       and k = 1 and L = toy_lm_env and t = toy_lm_state]
  show ?thesis
    unfolding list_all_iff
    by (intro conjI mp [OF conjunct1 [OF t] h0] mp [OF conjunct1 [OF conjunct2 [OF t]] h1]
          mp [OF conjunct2 [OF conjunct2 [OF t]] h2])
qed

end
